theory Spec2Isabelle
  imports Complex_Main "HOL-Library.Word"
begin

unbundle bit_operations_syntax

section \<open>The LoRa packet forwarder (lora\_pkt\_fwd.c)\<close>

text \<open>
  A shallow embedding of the parts of \<^verbatim>\<open>lora_pkt_fwd.c\<close> that decide the
  properties checked below. Machine integers are words of their C width; a C
  \<^verbatim>\<open>double\<close> is the \<^typ>\<open>real\<close> it stands for, and where the result of an
  operation on doubles is converted to an integer the operation is followed by
  the rounding to binary64; a conversion from \<^verbatim>\<open>double\<close> to an integer type
  truncates towards zero. The threads share global variables; each function of the
  model takes the globals it reads as arguments and returns the ones it writes.
  Functions of other translation units (the HAL, the JIT queue, the JSON parser, libc)
  appear through their results, which are arguments of the model.
\<close>

subsection \<open>Integer types and protocol constants\<close>

type_synonym u8 = "8 word"
type_synonym u16 = "16 word"
type_synonym u32 = "32 word"
type_synonym i8 = "8 word"
type_synonym i32 = "32 word"

definition PROTOCOL_VERSION :: u8 where "PROTOCOL_VERSION = 2"
definition PKT_PUSH_DATA :: u8 where "PKT_PUSH_DATA = 0"
definition PKT_PUSH_ACK :: u8 where "PKT_PUSH_ACK = 1"
definition PKT_PULL_DATA :: u8 where "PKT_PULL_DATA = 2"
definition PKT_PULL_RESP :: u8 where "PKT_PULL_RESP = 3"
definition PKT_PULL_ACK :: u8 where "PKT_PULL_ACK = 4"
definition PKT_TX_ACK :: u8 where "PKT_TX_ACK = 5"

definition MIN_LORA_PREAMB :: int where "MIN_LORA_PREAMB = 6"
definition STD_LORA_PREAMB :: int where "STD_LORA_PREAMB = 8"
definition MIN_FSK_PREAMB :: int where "MIN_FSK_PREAMB = 3"
definition STD_FSK_PREAMB :: int where "STD_FSK_PREAMB = 5"

text \<open>
  Modelled from the spec: the enumerations \<^verbatim>\<open>jit_error_e\<close> and
  \<^verbatim>\<open>jit_pkt_type_e\<close> of \<^verbatim>\<open>jitqueue.h\<close>, which is not among the sources.
  The enumerators are the results of the JIT queue and the packet classes the spec
  lists, under the names \<^verbatim>\<open>lora_pkt_fwd.c\<close> uses; \<open>JIT_ERROR_INVALID\<close> stands
  for a value that none of the \<^verbatim>\<open>switch\<close> statements names.
\<close>

datatype jit_error_e =
    JIT_ERROR_OK
  | JIT_ERROR_TOO_LATE
  | JIT_ERROR_TOO_EARLY
  | JIT_ERROR_FULL
  | JIT_ERROR_EMPTY
  | JIT_ERROR_COLLISION_PACKET
  | JIT_ERROR_COLLISION_BEACON
  | JIT_ERROR_TX_FREQ
  | JIT_ERROR_TX_POWER
  | JIT_ERROR_GPS_UNLOCKED
  | JIT_ERROR_INVALID

datatype jit_pkt_type_e =
    JIT_PKT_TYPE_DOWNLINK_CLASS_A
  | JIT_PKT_TYPE_DOWNLINK_CLASS_B
  | JIT_PKT_TYPE_DOWNLINK_CLASS_C
  | JIT_PKT_TYPE_BEACON

subsection \<open>Downstream measurements\<close>

text \<open>The counters guarded by \<^verbatim>\<open>mx_meas_dw\<close>, all \<^verbatim>\<open>uint32_t\<close>.\<close>

record meas_dw =
  meas_dw_pull_sent :: u32
  meas_dw_ack_rcv :: u32
  meas_dw_dgram_rcv :: u32
  meas_dw_network_byte :: u32
  meas_dw_payload_byte :: u32
  meas_nb_tx_ok :: u32
  meas_nb_tx_fail :: u32
  meas_nb_tx_requested :: u32
  meas_nb_tx_rejected_collision_packet :: u32
  meas_nb_tx_rejected_collision_beacon :: u32
  meas_nb_tx_rejected_too_late :: u32
  meas_nb_tx_rejected_too_early :: u32
  meas_nb_beacon_queued :: u32
  meas_nb_beacon_sent :: u32
  meas_nb_beacon_rejected :: u32

subsection \<open>Bytes and text\<close>

text \<open>
  A datagram is the list of the bytes handed to \<^verbatim>\<open>send\<close>. \<open>store_u32\<close> is the
  image in memory of a \<^verbatim>\<open>uint32_t\<close> written through a cast pointer (least
  significant byte first, as on the targets of the forwarder); \<open>bytes_of\<close> is what
  \<^verbatim>\<open>memcpy\<close> copies from a string literal.
\<close>

definition store_u32 :: "u32 \<Rightarrow> u8 list" where
  "store_u32 w = [ucast w, ucast (drop_bit 8 w), ucast (drop_bit 16 w), ucast (drop_bit 24 w)]"

definition bytes_of :: "string \<Rightarrow> u8 list" where
  "bytes_of s = map of_char s"

text \<open>The conversion \<^verbatim>\<open>%d\<close> of \<^verbatim>\<open>snprintf\<close>: decimal digits, a minus sign first when negative.\<close>

definition digit_char :: "nat \<Rightarrow> char" where
  "digit_char n = ''0123456789'' ! (n mod 10)"

fun dec_digits :: "nat \<Rightarrow> string" where
  "dec_digits n = (if n < 10 then [digit_char n] else dec_digits (n div 10) @ [digit_char n])"

declare dec_digits.simps [simp del]

definition printf_d :: "int \<Rightarrow> string" where
  "printf_d i = (if i < 0 then CHR ''-'' # dec_digits (nat (- i)) else dec_digits (nat i))"

subsection \<open>send\_tx\_ack\<close>

text \<open>
  \<open>send_tx_ack\<close> composes the TX\_ACK datagram in \<^verbatim>\<open>buff_ack\<close> and updates the
  rejection counters. The result is the datagram given to \<^verbatim>\<open>send\<close> (the first
  \<^verbatim>\<open>buff_index\<close> bytes of the buffer) and the counters. The three
  \<^verbatim>\<open>switch\<close> statements are \<open>tx_ack_key\<close>, \<open>tx_ack_type\<close> and \<open>tx_ack_details\<close>.
  The only \<^verbatim>\<open>exit\<close> of the function is taken when \<^verbatim>\<open>snprintf\<close> returns 0 or
  less, which it does not for a format that starts with nine fixed characters.
\<close>

definition tx_ack_key :: "jit_error_e \<Rightarrow> string" where
  \<open>tx_ack_key error = (case error of
       JIT_ERROR_TX_POWER \<Rightarrow> ''"warn":''
     | _ \<Rightarrow> ''"error":'')\<close>

definition tx_ack_type :: "jit_error_e \<Rightarrow> meas_dw \<Rightarrow> string \<times> meas_dw" where
  \<open>tx_ack_type error m = (case error of
       JIT_ERROR_FULL \<Rightarrow>
         (''"COLLISION_PACKET"'',
          m\<lparr>meas_nb_tx_rejected_collision_packet := meas_nb_tx_rejected_collision_packet m + 1\<rparr>)
     | JIT_ERROR_COLLISION_PACKET \<Rightarrow>
         (''"COLLISION_PACKET"'',
          m\<lparr>meas_nb_tx_rejected_collision_packet := meas_nb_tx_rejected_collision_packet m + 1\<rparr>)
     | JIT_ERROR_TOO_LATE \<Rightarrow>
         (''"TOO_LATE"'',
          m\<lparr>meas_nb_tx_rejected_too_late := meas_nb_tx_rejected_too_late m + 1\<rparr>)
     | JIT_ERROR_TOO_EARLY \<Rightarrow>
         (''"TOO_EARLY"'',
          m\<lparr>meas_nb_tx_rejected_too_early := meas_nb_tx_rejected_too_early m + 1\<rparr>)
     | JIT_ERROR_COLLISION_BEACON \<Rightarrow>
         (''"COLLISION_BEACON"'',
          m\<lparr>meas_nb_tx_rejected_collision_beacon := meas_nb_tx_rejected_collision_beacon m + 1\<rparr>)
     | JIT_ERROR_TX_FREQ \<Rightarrow> (''"TX_FREQ"'', m)
     | JIT_ERROR_TX_POWER \<Rightarrow> (''"TX_POWER"'', m)
     | JIT_ERROR_GPS_UNLOCKED \<Rightarrow> (''"GPS_UNLOCKED"'', m)
     | _ \<Rightarrow> (''"UNKNOWN"'', m))\<close>

definition tx_ack_details :: "jit_error_e \<Rightarrow> i32 \<Rightarrow> string" where
  \<open>tx_ack_details error error_value = (case error of
       JIT_ERROR_TX_POWER \<Rightarrow> '',"value":'' @ printf_d (sint error_value)
     | _ \<Rightarrow> [])\<close>

definition tx_ack_header :: "u8 \<Rightarrow> u8 \<Rightarrow> u32 \<Rightarrow> u32 \<Rightarrow> u8 list" where
  "tx_ack_header token_h token_l net_mac_h net_mac_l =
     [PROTOCOL_VERSION, token_h, token_l, PKT_TX_ACK] @ store_u32 net_mac_h @ store_u32 net_mac_l"

definition send_tx_ack ::
  "u32 \<Rightarrow> u32 \<Rightarrow> meas_dw \<Rightarrow> u8 \<Rightarrow> u8 \<Rightarrow> jit_error_e \<Rightarrow> i32 \<Rightarrow> u8 list \<times> meas_dw" where
  \<open>send_tx_ack net_mac_h net_mac_l m token_h token_l error error_value =
     (if error \<noteq> JIT_ERROR_OK then
        (case tx_ack_type error m of (ty, m') \<Rightarrow>
           (tx_ack_header token_h token_l net_mac_h net_mac_l
              @ bytes_of (''{"txpk_ack":{'' @ tx_ack_key error @ ty
                          @ tx_ack_details error error_value @ ''}}''),
            m'))
      else (tx_ack_header token_h token_l net_mac_h net_mac_l, m))\<close>

text \<open>The JSON body of a TX\_ACK datagram: what follows the 12-byte header.\<close>

definition tx_ack_body :: "u8 list \<Rightarrow> u8 list" where
  "tx_ack_body dgram = drop 12 dgram"

definition tx_ack_token :: "u8 list \<Rightarrow> u8 \<times> u8" where
  "tx_ack_token dgram = (dgram ! 1, dgram ! 2)"

subsection \<open>Constants of the HAL\<close>

text \<open>
  Modelled from the spec: the macros of \<^verbatim>\<open>loragw_hal.h\<close>, which is not among
  the sources. The spec names what they stand for (the three CRC statuses, the
  modulations LoRa and FSK, SF5 to SF12, 125, 250 and 500 kHz, 4/5 to 4/8, the TX
  statuses); the numbers are those of the HAL header. The functions below only
  compare fields with them, so what matters is that the constants compared with
  one field are distinct (and that no coderate constant is 0).
\<close>

definition STAT_NO_CRC :: u8 where "STAT_NO_CRC = 0x01"
definition STAT_CRC_BAD :: u8 where "STAT_CRC_BAD = 0x11"
definition STAT_CRC_OK :: u8 where "STAT_CRC_OK = 0x10"

definition MOD_LORA :: u8 where "MOD_LORA = 0x10"
definition MOD_FSK :: u8 where "MOD_FSK = 0x20"

definition BW_125KHZ :: u8 where "BW_125KHZ = 0x04"
definition BW_250KHZ :: u8 where "BW_250KHZ = 0x05"
definition BW_500KHZ :: u8 where "BW_500KHZ = 0x06"

definition DR_LORA_SF5 :: u32 where "DR_LORA_SF5 = 5"
definition DR_LORA_SF6 :: u32 where "DR_LORA_SF6 = 6"
definition DR_LORA_SF7 :: u32 where "DR_LORA_SF7 = 7"
definition DR_LORA_SF8 :: u32 where "DR_LORA_SF8 = 8"
definition DR_LORA_SF9 :: u32 where "DR_LORA_SF9 = 9"
definition DR_LORA_SF10 :: u32 where "DR_LORA_SF10 = 10"
definition DR_LORA_SF11 :: u32 where "DR_LORA_SF11 = 11"
definition DR_LORA_SF12 :: u32 where "DR_LORA_SF12 = 12"

definition CR_LORA_4_5 :: u8 where "CR_LORA_4_5 = 0x01"
definition CR_LORA_4_6 :: u8 where "CR_LORA_4_6 = 0x02"
definition CR_LORA_4_7 :: u8 where "CR_LORA_4_7 = 0x03"
definition CR_LORA_4_8 :: u8 where "CR_LORA_4_8 = 0x04"

definition LGW_HAL_SUCCESS :: int where "LGW_HAL_SUCCESS = 0"
definition LGW_HAL_ERROR :: int where "LGW_HAL_ERROR = - 1"
definition LGW_GPS_SUCCESS :: int where "LGW_GPS_SUCCESS = 0"

definition TX_SCHEDULED :: u8 where "TX_SCHEDULED = 3"
definition TX_EMITTING :: u8 where "TX_EMITTING = 4"

subsection \<open>thread\_up: one received packet\<close>

text \<open>The counters guarded by \<^verbatim>\<open>mx_meas_up\<close>.\<close>

record meas_up =
  meas_nb_rx_rcv :: u32
  meas_nb_rx_ok :: u32
  meas_nb_rx_bad :: u32
  meas_nb_rx_nocrc :: u32
  meas_up_pkt_fwd :: u32
  meas_up_network_byte :: u32
  meas_up_payload_byte :: u32
  meas_up_dgram_sent :: u32
  meas_up_ack_rcv :: u32

text \<open>
  Modelled from the spec: \<^verbatim>\<open>struct lgw_pkt_rx_s\<close> of \<^verbatim>\<open>loragw_hal.h\<close>,
  which is not among the sources, with the fields \<^verbatim>\<open>thread_up\<close> branches on. The
  other fields only reach the datagram through \<^verbatim>\<open>snprintf\<close> and
  \<^verbatim>\<open>bin_to_b64\<close>; the texts these calls produce for the packet are the record
  \<open>rx_text\<close>. Every \<^verbatim>\<open>snprintf\<close> format of the loop starts with fixed
  characters, so the calls return a positive length and the
  \<^verbatim>\<open>snprintf failed\<close> exits are not taken; \<^verbatim>\<open>bin_to_b64\<close> returns a
  negative number when the text does not fit in the 341 bytes it is given.
\<close>

record lgw_pkt_rx_s =
  rx_status :: u8
  rx_modulation :: u8
  rx_datarate :: u32
  rx_bandwidth :: u8
  rx_coderate :: u8
  rx_size :: u16
  rx_ftime_received :: bool

record rx_text =
  txt_jver :: string
  txt_tmst :: string
  txt_time :: string
  txt_ftime :: string
  txt_chan :: string
  txt_rssis :: string
  txt_lsnr :: string
  txt_foff :: string
  txt_fsk_datr :: string
  txt_rssi_size :: string
  b64_ret :: int
  b64_text :: string

datatype rxpk_result =
    RXPK_EXIT
  | RXPK_SKIP
  | RXPK_JSON string

text \<open>The \<^verbatim>\<open>switch\<close> statements on the status; \<open>None\<close> is the \<^verbatim>\<open>default\<close> label.\<close>

definition stat_text :: "u8 \<Rightarrow> string option" where
  \<open>stat_text st =
     (if st = STAT_CRC_OK then Some '',"stat":1''
      else if st = STAT_CRC_BAD then Some '',"stat":-1''
      else if st = STAT_NO_CRC then Some '',"stat":0''
      else None)\<close>

definition datr_text :: "u32 \<Rightarrow> string option" where
  \<open>datr_text dr =
     (if dr = DR_LORA_SF5 then Some '',"datr":"SF5''
      else if dr = DR_LORA_SF6 then Some '',"datr":"SF6''
      else if dr = DR_LORA_SF7 then Some '',"datr":"SF7''
      else if dr = DR_LORA_SF8 then Some '',"datr":"SF8''
      else if dr = DR_LORA_SF9 then Some '',"datr":"SF9''
      else if dr = DR_LORA_SF10 then Some '',"datr":"SF10''
      else if dr = DR_LORA_SF11 then Some '',"datr":"SF11''
      else if dr = DR_LORA_SF12 then Some '',"datr":"SF12''
      else None)\<close>

definition bw_text :: "u8 \<Rightarrow> string option" where
  \<open>bw_text bw =
     (if bw = BW_125KHZ then Some ''BW125"''
      else if bw = BW_250KHZ then Some ''BW250"''
      else if bw = BW_500KHZ then Some ''BW500"''
      else None)\<close>

definition codr_text :: "u8 \<Rightarrow> string option" where
  \<open>codr_text cr =
     (if cr = CR_LORA_4_5 then Some '',"codr":"4/5"''
      else if cr = CR_LORA_4_6 then Some '',"codr":"4/6"''
      else if cr = CR_LORA_4_7 then Some '',"codr":"4/7"''
      else if cr = CR_LORA_4_8 then Some '',"codr":"4/8"''
      else if cr = 0 then Some '',"codr":"OFF"''
      else None)\<close>

text \<open>
  The basic packet filtering: the counters, and whether the packet goes on
  (\<open>True\<close>) or is skipped by \<^verbatim>\<open>continue\<close>. A status that is none of the three
  is skipped (the \<^verbatim>\<open>exit\<close> of that label is commented out in the source).
\<close>

definition rx_filter :: "bool \<Rightarrow> bool \<Rightarrow> bool \<Rightarrow> u8 \<Rightarrow> meas_up \<Rightarrow> bool \<times> meas_up" where
  "rx_filter fwd_valid_pkt fwd_error_pkt fwd_nocrc_pkt st m =
     (let m1 = m\<lparr>meas_nb_rx_rcv := meas_nb_rx_rcv m + 1\<rparr> in
      if st = STAT_CRC_OK then
        (fwd_valid_pkt, m1\<lparr>meas_nb_rx_ok := meas_nb_rx_ok m1 + 1\<rparr>)
      else if st = STAT_CRC_BAD then
        (fwd_error_pkt, m1\<lparr>meas_nb_rx_bad := meas_nb_rx_bad m1 + 1\<rparr>)
      else if st = STAT_NO_CRC then
        (fwd_nocrc_pkt, m1\<lparr>meas_nb_rx_nocrc := meas_nb_rx_nocrc m1 + 1\<rparr>)
      else (False, m1))"

text \<open>
  The modulation part of the serialisation: the text, or \<open>None\<close> where the source
  calls \<^verbatim>\<open>exit(EXIT_FAILURE)\<close> (unknown datarate, bandwidth, coderate or
  modulation).
\<close>

definition modu_text :: "rx_text \<Rightarrow> lgw_pkt_rx_s \<Rightarrow> string option" where
  \<open>modu_text t p =
     (if rx_modulation p = MOD_LORA then
        (case datr_text (rx_datarate p) of
           None \<Rightarrow> None
         | Some d \<Rightarrow>
            (case bw_text (rx_bandwidth p) of
               None \<Rightarrow> None
             | Some b \<Rightarrow>
                (case codr_text (rx_coderate p) of
                   None \<Rightarrow> None
                 | Some c \<Rightarrow>
                     Some ('',"modu":"LORA"'' @ d @ b @ c
                           @ txt_rssis t @ txt_lsnr t @ txt_foff t))))
      else if rx_modulation p = MOD_FSK then
        Some ('',"modu":"FSK"'' @ txt_fsk_datr t)
      else None)\<close>

text \<open>
  One iteration of the loop over the fetched packets: the packet is skipped, or
  its JSON object is appended to the datagram, or the process exits. \<open>pkt_in_dgram\<close>
  is the number of packets already serialised and \<open>ref_ok\<close> says whether the GPS
  time reference is used.
\<close>

definition serialize_rxpk ::
  "bool \<Rightarrow> bool \<Rightarrow> bool \<Rightarrow> bool \<Rightarrow> nat \<Rightarrow> rx_text \<Rightarrow> lgw_pkt_rx_s \<Rightarrow> meas_up
     \<Rightarrow> rxpk_result \<times> meas_up" where
  \<open>serialize_rxpk fwd_valid_pkt fwd_error_pkt fwd_nocrc_pkt ref_ok pkt_in_dgram t p m =
     (case rx_filter fwd_valid_pkt fwd_error_pkt fwd_nocrc_pkt (rx_status p) m of
        (False, m1) \<Rightarrow> (RXPK_SKIP, m1)
      | (True, m1) \<Rightarrow>
         (let m2 = m1\<lparr>meas_up_pkt_fwd := meas_up_pkt_fwd m1 + 1,
                      meas_up_payload_byte := meas_up_payload_byte m1 + ucast (rx_size p)\<rparr>;
              head = (if pkt_in_dgram = 0 then ''{'' else '',{'')
                     @ txt_jver t @ txt_tmst t
                     @ (if ref_ok then txt_time t else [])
                     @ (if rx_ftime_received p then txt_ftime t else [])
                     @ txt_chan t
          in case stat_text (rx_status p) of
               None \<Rightarrow> (RXPK_EXIT, m2)
             | Some s \<Rightarrow>
                (case modu_text t p of
                   None \<Rightarrow> (RXPK_EXIT, m2)
                 | Some mo \<Rightarrow>
                     if b64_ret t \<ge> 0 then
                       (RXPK_JSON (head @ s @ mo @ txt_rssi_size t @ '',"data":"''
                                   @ b64_text t @ ''"}''), m2)
                     else (RXPK_EXIT, m2))))\<close>

subsection \<open>thread\_up: waiting for the PUSH\_ACK\<close>

text \<open>
  What a call of \<^verbatim>\<open>recv\<close> on the upstream socket gives: a timeout
  (\<^verbatim>\<open>-1\<close> with \<^verbatim>\<open>EAGAIN\<close>), another error, or a datagram, the bytes written
  to \<^verbatim>\<open>buff_ack\<close> (their number is the value returned).
\<close>

datatype recv_result =
    RECV_EAGAIN
  | RECV_ERROR
  | RECV_DGRAM "u8 list"

text \<open>
  The body of the \<^verbatim>\<open>for\<close> loop that waits for the acknowledgement, over the
  results of the successive calls of \<^verbatim>\<open>recv\<close>: \<^verbatim>\<open>continue\<close> goes to the
  next result, \<^verbatim>\<open>break\<close> returns.
\<close>

fun wait_push_ack :: "u8 \<Rightarrow> u8 \<Rightarrow> recv_result list \<Rightarrow> meas_up \<Rightarrow> meas_up" where
  "wait_push_ack token_h token_l [] m = m"
| "wait_push_ack token_h token_l (r # rs) m =
     (case r of
        RECV_EAGAIN \<Rightarrow> wait_push_ack token_h token_l rs m
      | RECV_ERROR \<Rightarrow> m
      | RECV_DGRAM buff_ack \<Rightarrow>
          if length buff_ack < 4 \<or> buff_ack ! 0 \<noteq> PROTOCOL_VERSION
             \<or> buff_ack ! 3 \<noteq> PKT_PUSH_ACK
          then wait_push_ack token_h token_l rs m
          else if buff_ack ! 1 \<noteq> token_h \<or> buff_ack ! 2 \<noteq> token_l
          then wait_push_ack token_h token_l rs m
          else m\<lparr>meas_up_ack_rcv := meas_up_ack_rcv m + 1\<rparr>)"

text \<open>The loop runs at most twice (\<^verbatim>\<open>for (i = 0; i < 2; ++i)\<close>).\<close>

definition push_ack_window :: "u8 \<Rightarrow> u8 \<Rightarrow> recv_result list \<Rightarrow> meas_up \<Rightarrow> meas_up" where
  "push_ack_window token_h token_l recvs m = wait_push_ack token_h token_l (take 2 recvs) m"

subsection \<open>Doubles and their conversion to integer types\<close>

text \<open>
  A value of type \<^verbatim>\<open>double\<close> is the real number it stands for. The result of
  an arithmetic operation on doubles is the result on the reals rounded to the
  nearest binary64 number, ties to the even significand (\<open>binary64\<close>): with
  \<open>2 ^ e \<le> \<bar>x\<bar> < 2 ^ (e + 1)\<close> the spacing of the binary64 numbers around \<open>x\<close>
  is \<open>2 ^ (e - 52)\<close>. \<open>bit_length n\<close> is the number of binary digits of \<open>n\<close>,
  from which \<open>binary64_exponent\<close> computes \<open>e\<close>. Overflow and subnormal numbers
  are not modelled; the operations below stay far from both.
\<close>

fun bit_length :: "nat \<Rightarrow> nat" where
  "bit_length n = (if n = 0 then 0 else Suc (bit_length (n div 2)))"

declare bit_length.simps [simp del]

definition binary64_exponent :: "real \<Rightarrow> int" where
  "binary64_exponent x =
     (if 1 \<le> \<bar>x\<bar> then int (bit_length (nat \<lfloor>\<bar>x\<bar>\<rfloor>)) - 1
      else - int (bit_length (nat (\<lceil>1 / \<bar>x\<bar>\<rceil> - 1))))"

definition round_even :: "real \<Rightarrow> int" where
  "round_even q =
     (let f = \<lfloor>q\<rfloor> in
      if q - of_int f < 1 / 2 then f
      else if 1 / 2 < q - of_int f then f + 1
      else if even f then f else f + 1)"

definition binary64 :: "real \<Rightarrow> real" where
  "binary64 x =
     (if x = 0 then 0
      else (let u = 2 powi (binary64_exponent x - 52) in of_int (round_even (x / u)) * u))"

text \<open>
  A cast of a \<^verbatim>\<open>double\<close> to an integer type drops the fraction (\<open>c_trunc\<close>).
  When the value without its fraction is not a value of the integer type the
  behaviour is undefined in C: the cast to a type with the values from \<open>lo\<close> to
  \<open>hi\<close> is \<open>None\<close> then.
\<close>

definition c_trunc :: "real \<Rightarrow> int" where
  "c_trunc x = (if x < 0 then \<lceil>x\<rceil> else \<lfloor>x\<rfloor>)"

definition double_to_int :: "int \<Rightarrow> int \<Rightarrow> real \<Rightarrow> int option" where
  "double_to_int lo hi x = (if lo \<le> c_trunc x \<and> c_trunc x \<le> hi then Some (c_trunc x) else None)"

definition double_to_u8 :: "real \<Rightarrow> u8 option" where
  "double_to_u8 x = map_option word_of_int (double_to_int 0 255 x)"

definition double_to_i8 :: "real \<Rightarrow> i8 option" where
  "double_to_i8 x = map_option word_of_int (double_to_int (- 128) 127 x)"

definition double_to_u16 :: "real \<Rightarrow> u16 option" where
  "double_to_u16 x = map_option word_of_int (double_to_int 0 65535 x)"

definition double_to_u32 :: "real \<Rightarrow> u32 option" where
  "double_to_u32 x = map_option word_of_int (double_to_int 0 4294967295 x)"

definition double_to_i32 :: "real \<Rightarrow> i32 option" where
  "double_to_i32 x = map_option word_of_int (double_to_int (- 2147483648) 2147483647 x)"

definition double_to_u64 :: "real \<Rightarrow> 64 word option" where
  "double_to_u64 x = map_option word_of_int (double_to_int 0 18446744073709551615 x)"

text \<open>The casts to \<^verbatim>\<open>time_t\<close> and \<^verbatim>\<open>long\<close>, 64 bits wide and signed.\<close>

definition double_to_long :: "real \<Rightarrow> int option" where
  "double_to_long x = double_to_int (- 9223372036854775808) 9223372036854775807 x"

text \<open>
  The operators \<^verbatim>\<open>%\<close> and \<^verbatim>\<open>/\<close> of C on signed operands: the quotient
  is rounded towards zero and the remainder has the sign of the dividend.
\<close>

definition c_rem :: "int \<Rightarrow> int \<Rightarrow> int" where
  "c_rem a b = sgn a * (\<bar>a\<bar> mod \<bar>b\<bar>)"

definition c_div :: "int \<Rightarrow> int \<Rightarrow> int" where
  "c_div a b = (if (a < 0) = (b < 0) then \<bar>a\<bar> div \<bar>b\<bar> else - (\<bar>a\<bar> div \<bar>b\<bar>))"

subsection \<open>thread\_down: the beacon fields of the reference coordinates\<close>

text \<open>
  \<open>field_latitude\<close> and \<open>field_longitude\<close> are the \<^verbatim>\<open>int32_t\<close> variables of
  \<^verbatim>\<open>thread_down\<close> after the two saturation tests, \<open>None\<close> when the cast of the
  scaled coordinate is undefined. The quotient by \<^verbatim>\<open>90.0\<close> or \<^verbatim>\<open>180.0\<close>
  is rounded to binary64; the product with \<^verbatim>\<open>(double)(1 << 23)\<close>, which is
  8388608, is a product with a power of two and exact. The comparisons are signed,
  and \<^verbatim>\<open>(int32_t)0xFF800000\<close> is \<open>- 8388608\<close>.
\<close>

definition field_latitude :: "real \<Rightarrow> i32 option" where
  "field_latitude lat =
     (case double_to_i32 (binary64 (lat / 90) * 8388608) of
        None \<Rightarrow> None
      | Some f \<Rightarrow>
          Some (if 0x007FFFFF <s f then 0x007FFFFF
                else if f <s 0xFF800000 then 0xFF800000
                else f))"

definition field_longitude :: "real \<Rightarrow> i32 option" where
  "field_longitude lon =
     (case double_to_i32 (binary64 (lon / 180) * 8388608) of
        None \<Rightarrow> None
      | Some f \<Rightarrow>
          Some (if 0x007FFFFF <s f then 0x007FFFFF
                else if f <s 0xFF800000 then 0xFF800000
                else f))"

text \<open>
  The gateway specific beacon fields written to the payload, from the two
  \<^verbatim>\<open>int32_t\<close> fields: the information descriptor, then three bytes of each
  field, least significant first (\<^verbatim>\<open>>>\<close> on the signed field keeps the sign).
\<close>

definition beacon_gw_fields :: "u8 \<Rightarrow> i32 \<Rightarrow> i32 \<Rightarrow> u8 list" where
  "beacon_gw_fields beacon_infodesc field_lat field_lon =
     [beacon_infodesc,
      ucast (0xFF AND field_lat),
      ucast (0xFF AND signed_drop_bit 8 field_lat),
      ucast (0xFF AND signed_drop_bit 16 field_lat),
      ucast (0xFF AND field_lon),
      ucast (0xFF AND signed_drop_bit 8 field_lon),
      ucast (0xFF AND signed_drop_bit 16 field_lon)]"

subsection \<open>thread\_down: one iteration of the beacon pre-allocation\<close>

text \<open>
  The variables of the inner \<^verbatim>\<open>while\<close> loop. \<^verbatim>\<open>time_t\<close> values are
  integers (seconds of GPS time are far from the bounds of the type);
  \<open>retry\<close> is an \<^verbatim>\<open>int\<close> that only counts up from 0.
\<close>

record beacon_vars =
  beacon_loop :: u8
  retry :: int
  last_beacon_gps_time_sec :: int

text \<open>
  The GPS second of the next beacon. In \<^verbatim>\<open>retry * beacon_period\<close> the
  \<^verbatim>\<open>int\<close> is converted to \<^verbatim>\<open>unsigned\<close> and the product is taken modulo
  \<open>2 ^ 32\<close> before it is added to the \<^verbatim>\<open>time_t\<close>.
\<close>

definition next_beacon_gps_time_sec :: "u32 \<Rightarrow> int \<Rightarrow> beacon_vars \<Rightarrow> int" where
  "next_beacon_gps_time_sec beacon_period ref_gps_sec v =
     (let period = uint beacon_period;
          first =
            (if last_beacon_gps_time_sec v = 0 then
               (let diff_beacon_time = c_rem ref_gps_sec period
                in ref_gps_sec + (period - diff_beacon_time))
             else last_beacon_gps_time_sec v + period)
      in first + (retry v * period) mod 2 ^ 32)"

text \<open>The beacon channel (stored in a \<^verbatim>\<open>uint8_t\<close>) and frequency of that second.\<close>

definition beacon_chan :: "u32 \<Rightarrow> u8 \<Rightarrow> int \<Rightarrow> u8" where
  "beacon_chan beacon_period beacon_freq_nb next_sec =
     (if 1 < beacon_freq_nb
      then word_of_int (c_rem (c_div next_sec (uint beacon_period)) (uint beacon_freq_nb))
      else 0)"

definition beacon_freq :: "u32 \<Rightarrow> u32 \<Rightarrow> u8 \<Rightarrow> u32" where
  "beacon_freq beacon_freq_hz beacon_freq_step chan = beacon_freq_hz + ucast chan * beacon_freq_step"

text \<open>
  One iteration of \<^verbatim>\<open>while (beacon_loop && (beacon_period != 0))\<close>, given the
  validity flags, the GPS second of the time reference and the result of
  \<^verbatim>\<open>jit_enqueue\<close>: \<open>None\<close> when the loop is left by \<^verbatim>\<open>break\<close>, otherwise
  the variables and counters after the iteration.
\<close>

definition beacon_iteration ::
  "bool \<Rightarrow> bool \<Rightarrow> u32 \<Rightarrow> int \<Rightarrow> jit_error_e \<Rightarrow> beacon_vars \<times> meas_dw
     \<Rightarrow> (beacon_vars \<times> meas_dw) option" where
  "beacon_iteration gps_ref_valid xtal_correct_ok beacon_period ref_gps_sec jit_result vm =
     (case vm of (v, m) \<Rightarrow>
        if gps_ref_valid \<and> xtal_correct_ok then
          (let next_sec = next_beacon_gps_time_sec beacon_period ref_gps_sec v in
           if jit_result = JIT_ERROR_OK then
             Some (v\<lparr>beacon_loop := beacon_loop v - 1, retry := 0,
                      last_beacon_gps_time_sec := next_sec\<rparr>,
                   m\<lparr>meas_nb_beacon_queued := meas_nb_beacon_queued m + 1\<rparr>)
           else
             Some (v\<lparr>retry := retry v + 1\<rparr>,
                   if jit_result \<noteq> JIT_ERROR_COLLISION_BEACON
                   then m\<lparr>meas_nb_beacon_rejected := meas_nb_beacon_rejected m + 1\<rparr>
                   else m))
        else None)"

subsection \<open>thread\_jit: one chain of one polling round\<close>

text \<open>
  Modelled from the spec: \<^verbatim>\<open>struct lgw_pkt_tx_s\<close> of \<^verbatim>\<open>loragw_hal.h\<close>,
  which is not among the sources, with the fields \<^verbatim>\<open>lora_pkt_fwd.c\<close> reads or
  writes, and the three TX modes.
\<close>

record lgw_pkt_tx_s =
  freq_hz :: u32
  tx_mode :: u8
  count_us :: u32
  rf_chain :: u8
  rf_power :: i8
  modulation :: u8
  bandwidth :: u8
  datarate :: u32
  coderate :: u8
  invert_pol :: bool
  f_dev :: u8
  preamble :: u16
  no_crc :: bool
  no_header :: bool
  size_tx :: u16
  payload :: "u8 list"

definition IMMEDIATE :: u8 where "IMMEDIATE = 0"
definition TIMESTAMPED :: u8 where "TIMESTAMPED = 1"
definition ON_GPS :: u8 where "ON_GPS = 2"

text \<open>
  The body of the loop over the RF chains, given what the calls return:
  \<open>peek\<close> is the result and index of \<^verbatim>\<open>jit_peek\<close>, \<open>deq\<close> the result, packet and
  type of \<^verbatim>\<open>jit_dequeue\<close>, \<open>status\<close> the result and TX status of
  \<^verbatim>\<open>lgw_status\<close>, \<open>send_ret\<close> the result of \<^verbatim>\<open>lgw_send\<close>. The value is the
  packet handed to \<^verbatim>\<open>lgw_send\<close>, if it is called, and the counters; it is
  \<open>None\<close> when the cast of the corrected beacon frequency is undefined. The
  frequency of a beacon is converted to \<^verbatim>\<open>double\<close> (exactly), multiplied with
  \<open>xtal_correct\<close> in binary64 arithmetic and cast to \<^verbatim>\<open>uint32_t\<close>. The abort of
  a running spectral scan before \<^verbatim>\<open>lgw_send\<close> changes neither packet nor
  counters.
\<close>

definition beacon_freq_corrected :: "real \<Rightarrow> u32 \<Rightarrow> u32 option" where
  "beacon_freq_corrected xtal_correct freq = double_to_u32 (binary64 (xtal_correct * real (unat freq)))"

definition thread_jit_chain ::
  "real \<Rightarrow> jit_error_e \<times> int \<Rightarrow> jit_error_e \<times> lgw_pkt_tx_s \<times> jit_pkt_type_e
     \<Rightarrow> int \<times> u8 \<Rightarrow> int \<Rightarrow> meas_dw \<Rightarrow> (lgw_pkt_tx_s option \<times> meas_dw) option" where
  "thread_jit_chain xtal_correct peek deq status send_ret m =
     (case peek of (peek_result, pkt_index) \<Rightarrow>
      case deq of (deq_result, pkt0, pkt_type) \<Rightarrow>
      case status of (status_result, tx_status) \<Rightarrow>
        if peek_result = JIT_ERROR_OK then
          if - 1 < pkt_index then
            if deq_result = JIT_ERROR_OK then
              (case (if pkt_type = JIT_PKT_TYPE_BEACON
                     then map_option (\<lambda>f. pkt0\<lparr>freq_hz := f\<rparr>)
                            (beacon_freq_corrected xtal_correct (freq_hz pkt0))
                     else Some pkt0) of
                 None \<Rightarrow> None
               | Some pkt \<Rightarrow>
                  (let m1 = (if pkt_type = JIT_PKT_TYPE_BEACON
                             then m\<lparr>meas_nb_beacon_sent := meas_nb_beacon_sent m + 1\<rparr>
                             else m)
                   in if status_result \<noteq> LGW_HAL_ERROR \<and> tx_status = TX_EMITTING
                      then Some (None, m1)
                      else if send_ret \<noteq> LGW_HAL_SUCCESS
                      then Some (Some pkt, m1\<lparr>meas_nb_tx_fail := meas_nb_tx_fail m1 + 1\<rparr>)
                      else Some (Some pkt, m1\<lparr>meas_nb_tx_ok := meas_nb_tx_ok m1 + 1\<rparr>)))
            else Some (None, m)
          else Some (None, m)
        else Some (None, m))"

subsection \<open>modify\_os\_time\<close>

text \<open>
  \<open>modify_os_time\<close> with its static flag \<open>time_already_set\<close> as an argument and a
  result. \<open>y_sec\<close> is the second \<^verbatim>\<open>lgw_cnt2utc\<close> gives for the PPS,
  \<open>stamp_sec\<close> the second of \<^verbatim>\<open>gettimeofday\<close>, \<open>ret\<close> what
  \<^verbatim>\<open>clock_settime\<close> returns if it is called. The second component of the
  value is the time the system clock has been set to, if it has been. The
  difference of the two \<^verbatim>\<open>time_t\<close> is converted to \<^verbatim>\<open>int\<close> for
  \<^verbatim>\<open>abs\<close> (\<open>to_int32\<close> keeps the low 32 bits), and \<^verbatim>\<open>abs\<close> of the least
  \<^verbatim>\<open>int\<close> is that same negative number (\<open>c_abs\<close>).
\<close>

definition to_int32 :: "int \<Rightarrow> int" where
  "to_int32 k = sint (word_of_int k :: 32 word)"

definition c_abs :: "int \<Rightarrow> int" where
  "c_abs k = (if k = - 2147483648 then - 2147483648 else \<bar>k\<bar>)"

definition modify_os_time :: "bool \<Rightarrow> bool \<Rightarrow> int \<Rightarrow> int \<Rightarrow> int \<Rightarrow> bool \<times> int option" where
  "modify_os_time gps_enabled time_already_set y_sec stamp_sec ret =
     (if \<not> gps_enabled \<or> time_already_set then (time_already_set, None)
      else if y_sec < 1583402711 then (time_already_set, None)
      else
        (let time_diff = c_abs (to_int32 (y_sec - stamp_sec)) in
         if time_diff < 10 then (True, None)
         else if ret = 0 then (True, Some y_sec)
         else (time_already_set, None)))"

text \<open>
  The times the system clock is set to over the successive calls of a process,
  each call given as \<open>(y_sec, stamp_sec, ret)\<close>.
\<close>

fun os_time_sets :: "bool \<Rightarrow> bool \<Rightarrow> (int \<times> int \<times> int) list \<Rightarrow> int list" where
  "os_time_sets gps_enabled time_already_set [] = []"
| "os_time_sets gps_enabled time_already_set ((y_sec, stamp_sec, ret) # calls) =
     (case modify_os_time gps_enabled time_already_set y_sec stamp_sec ret of
        (already, None) \<Rightarrow> os_time_sets gps_enabled already calls
      | (already, Some t) \<Rightarrow> t # os_time_sets gps_enabled already calls)"

subsection \<open>thread\_valid\<close>

text \<open>
  The variables \<^verbatim>\<open>thread_valid\<close> reads and writes: the globals
  \<open>gps_ref_valid\<close>, \<open>xtal_correct_ok\<close>, \<open>xtal_correct\<close> and the locals of the
  averaging. \<open>thread_valid_step\<close> is one round of the main loop, given the age of
  the time reference in seconds and its \<open>xtal_err\<close> field at that moment.
  The arithmetic is the one of the reals; in IEEE arithmetic the division by 256 is
  exact, so the filter line and the form
  \<open>xtal_correct * (1 - 1/256) + (1/xtal_err) * (1/256)\<close> round the same way.
\<close>

record valid_vars =
  gps_ref_valid :: bool
  xtal_correct_ok :: bool
  xtal_correct :: real
  init_cpt :: nat
  init_acc :: real
  xtal_err_cpy :: real



subsection \<open>get\_tx\_gain\_lut\_index\<close>

text \<open>
  Modelled from the spec: \<^verbatim>\<open>struct lgw_tx_gain_lut_s\<close> of \<^verbatim>\<open>loragw_hal.h\<close>,
  which is not among the sources. A TX gain table is the array \<open>lut\<close> of
  \<^verbatim>\<open>struct lgw_tx_gain_s\<close>, of which the functions below read the field
  \<^verbatim>\<open>rf_power\<close> (an \<^verbatim>\<open>int8_t\<close>), and the number \<open>lut_size\<close> of entries in
  use (the field \<^verbatim>\<open>size\<close>).
\<close>

record lgw_tx_gain_s =
  lut_rf_power :: i8

record lgw_tx_gain_lut_s =
  lut :: "lgw_tx_gain_s list"
  lut_size :: u8

text \<open>
  The \<^verbatim>\<open>for\<close> loop of \<open>get_tx_gain_lut_index\<close> from index \<open>pow_index\<close> on; the
  value is \<open>current_best_index\<close> after the loop. \<open>diff\<close> is computed on
  \<^verbatim>\<open>int\<close>, stored into the \<^verbatim>\<open>uint8_t\<close> \<open>current_best_match\<close> and compared
  with it as an \<^verbatim>\<open>int\<close>.
\<close>

function lut_search :: "lgw_tx_gain_lut_s \<Rightarrow> i8 \<Rightarrow> nat \<Rightarrow> int \<Rightarrow> u8 \<Rightarrow> int" where
  "lut_search l rf_pow pow_index current_best_index current_best_match =
     (if pow_index < unat (lut_size l) then
        (let diff = sint rf_pow - sint (lut_rf_power (lut l ! pow_index)) in
         if diff < 0 then
           lut_search l rf_pow (pow_index + 1) current_best_index current_best_match
         else if current_best_index = - 1 \<or> diff < uint current_best_match then
           lut_search l rf_pow (pow_index + 1) (int pow_index) (word_of_int diff)
         else
           lut_search l rf_pow (pow_index + 1) current_best_index current_best_match)
      else current_best_index)"
  by pat_completeness auto
termination
  by (relation "measure (\<lambda>(l, rf_pow, pow_index, bi, bm). unat (lut_size l) - pow_index)") auto

declare lut_search.simps [simp del]

text \<open>The value returned and the index written through \<^verbatim>\<open>lut_index\<close>.\<close>

definition get_tx_gain_lut_index :: "lgw_tx_gain_lut_s \<Rightarrow> i8 \<Rightarrow> int \<times> u8" where
  "get_tx_gain_lut_index l rf_pow =
     (let current_best_index = lut_search l rf_pow 0 (- 1) 0xFF in
      if - 1 < current_best_index then (0, word_of_int current_best_index)
      else (- 1, 0))"

subsection \<open>thread\_down: a datagram from the server\<close>

text \<open>
  Modelled from the spec: the JSON parser (parson), which the spec treats as an
  external collaborator and which is not among the sources. A parsed JSON
  document, and the functions of the library the thread calls on it, as the
  library's header and the comments of the thread describe them: a lookup gives \<open>None\<close>
  (\<^verbatim>\<open>NULL\<close>) for a missing name or a value of another type,
  \<open>json_object_get_boolean\<close> and \<open>json_value_get_boolean\<close> give 1, 0, or -1 when
  the value is not a boolean, \<open>json_value_get_number\<close> gives 0 when the value is
  not a number. A number is the \<^verbatim>\<open>double\<close> the parser has read.
\<close>

datatype json_value =
    JSONNull
  | JSONString string
  | JSONNumber real
  | JSONBoolean bool
  | JSONArray "json_value list"
  | JSONObject "(string \<times> json_value) list"

type_synonym json_object = "(string \<times> json_value) list"

definition json_object_get_value :: "json_object \<Rightarrow> string \<Rightarrow> json_value option" where
  "json_object_get_value obj name = map_of obj name"

definition json_value_get_boolean :: "json_value \<Rightarrow> int" where
  "json_value_get_boolean v = (case v of JSONBoolean b \<Rightarrow> (if b then 1 else 0) | _ \<Rightarrow> - 1)"

definition json_object_get_boolean :: "json_object \<Rightarrow> string \<Rightarrow> int" where
  "json_object_get_boolean obj name =
     (case map_of obj name of Some v \<Rightarrow> json_value_get_boolean v | None \<Rightarrow> - 1)"

definition json_value_get_number :: "json_value \<Rightarrow> real" where
  "json_value_get_number v = (case v of JSONNumber x \<Rightarrow> x | _ \<Rightarrow> 0)"

definition json_object_get_string :: "json_object \<Rightarrow> string \<Rightarrow> string option" where
  "json_object_get_string obj name =
     (case map_of obj name of Some (JSONString str) \<Rightarrow> Some str | _ \<Rightarrow> None)"

definition json_object_get_object :: "json_value \<Rightarrow> string \<Rightarrow> json_object option" where
  "json_object_get_object root_v name =
     (case root_v of
        JSONObject obj \<Rightarrow> (case map_of obj name of Some (JSONObject sub) \<Rightarrow> Some sub | _ \<Rightarrow> None)
      | _ \<Rightarrow> None)"

text \<open>
  What \<^verbatim>\<open>thread_down\<close> reads besides the datagram: configuration and shared
  variables, and the functions of other translation units it calls.
  \<open>lgw_gps2cnt\<close> takes the seconds and nanoseconds of the GPS time (the time
  reference is fixed) and gives the return value and the counter;
  \<open>sscanf_datr\<close> is \<^verbatim>\<open>sscanf(str, "SF%2hdBW%3hd", &x0, &x1)\<close> with its return
  value and the two numbers; \<open>b64_to_bin\<close> gives the return value and the bytes;
  \<open>jit_enqueue\<close> takes the RF chain of the queue, the packet and its type. The
  arrays indexed by the RF chain are functions of the index.
\<close>

record down_env =
  gps_enabled :: bool
  ref_valid :: bool
  net_mac_h :: u32
  net_mac_l :: u32
  antenna_gain :: i8
  tx_enable :: "u8 \<Rightarrow> bool"
  tx_freq_min :: "u8 \<Rightarrow> u32"
  tx_freq_max :: "u8 \<Rightarrow> u32"
  txlut :: "u8 \<Rightarrow> lgw_tx_gain_lut_s"
  lgw_gps2cnt :: "int \<Rightarrow> int \<Rightarrow> int \<times> u32"
  sscanf_datr :: "string \<Rightarrow> int \<times> int \<times> int"
  b64_to_bin :: "string \<Rightarrow> int \<times> u8 list"
  jit_enqueue :: "u8 \<Rightarrow> lgw_pkt_tx_s \<Rightarrow> jit_pkt_type_e \<Rightarrow> jit_error_e"

text \<open>The packet after \<^verbatim>\<open>memset(&txpkt, 0, sizeof txpkt)\<close>.\<close>

definition txpkt_zero :: lgw_pkt_tx_s where
  "txpkt_zero =
     \<lparr>freq_hz = 0, tx_mode = 0, count_us = 0, rf_chain = 0, rf_power = 0, modulation = 0,
      bandwidth = 0, datarate = 0, coderate = 0, invert_pol = False, f_dev = 0, preamble = 0,
      no_crc = False, no_header = False, size_tx = 0, payload = replicate 256 0\<rparr>"

text \<open>
  The first part of the parsing decides how the packet is scheduled:
  \<^verbatim>\<open>imme\<close>, else \<^verbatim>\<open>tmst\<close>, else \<^verbatim>\<open>tmms\<close> with the GPS time reference.
  It ends with \<^verbatim>\<open>continue\<close> and no acknowledgement (\<open>SCHED_ABORT\<close>), with
  \<^verbatim>\<open>send_tx_ack(..., JIT_ERROR_GPS_UNLOCKED, 0)\<close> and \<^verbatim>\<open>continue\<close>
  (\<open>SCHED_GPS_UNLOCKED\<close>), with an undefined cast of a number
  (\<open>SCHED_UNDEFINED\<close>), or goes on with \<open>sent_immediate\<close>, the counter and the
  downlink type.
\<close>

datatype sched_result =
    SCHED_UNDEFINED
  | SCHED_ABORT
  | SCHED_GPS_UNLOCKED
  | SCHED_OK bool u32 jit_pkt_type_e

text \<open>
  The GPS time of a \<^verbatim>\<open>tmms\<close> number as seconds and nanoseconds: the number
  is cast to \<^verbatim>\<open>uint64_t\<close>, converted back to \<^verbatim>\<open>double\<close>, divided by
  \<^verbatim>\<open>1E3\<close> and split by \<^verbatim>\<open>modf\<close> into its integral part \<open>x4\<close> and its
  fraction \<open>x3\<close> (both exact); the fraction is multiplied by \<^verbatim>\<open>1E9\<close>.
\<close>

definition tmms_timespec :: "real \<Rightarrow> (int \<times> int) option" where
  "tmms_timespec number =
     (case double_to_u64 number of
        None \<Rightarrow> None
      | Some x2 \<Rightarrow>
         (let d = binary64 (binary64 (real (unat x2)) / 1000);
              x4 = real_of_int (c_trunc d);
              x3 = d - x4
          in case double_to_long x4 of
               None \<Rightarrow> None
             | Some sec \<Rightarrow>
                (case double_to_long (binary64 (x3 * 1000000000)) of
                   None \<Rightarrow> None
                 | Some nsec \<Rightarrow> Some (sec, nsec))))"

definition txpk_schedule :: "down_env \<Rightarrow> json_object \<Rightarrow> sched_result" where
  "txpk_schedule env txpk_obj =
     (if json_object_get_boolean txpk_obj ''imme'' = 1 then
        SCHED_OK True 0 JIT_PKT_TYPE_DOWNLINK_CLASS_C
      else
        (case json_object_get_value txpk_obj ''tmst'' of
           Some val \<Rightarrow>
            (case double_to_u32 (json_value_get_number val) of
               None \<Rightarrow> SCHED_UNDEFINED
             | Some cnt \<Rightarrow> SCHED_OK False cnt JIT_PKT_TYPE_DOWNLINK_CLASS_A)
         | None \<Rightarrow>
            (case json_object_get_value txpk_obj ''tmms'' of
               None \<Rightarrow> SCHED_ABORT
             | Some val \<Rightarrow>
                 if gps_enabled env then
                   if ref_valid env then
                     (case tmms_timespec (json_value_get_number val) of
                        None \<Rightarrow> SCHED_UNDEFINED
                      | Some (sec, nsec) \<Rightarrow>
                         (case lgw_gps2cnt env sec nsec of
                            (i, cnt) \<Rightarrow>
                              if i \<noteq> LGW_GPS_SUCCESS then SCHED_ABORT
                              else SCHED_OK False cnt JIT_PKT_TYPE_DOWNLINK_CLASS_B))
                   else SCHED_GPS_UNLOCKED
                 else SCHED_GPS_UNLOCKED)))"

text \<open>
  The fields parsed next. Each part ends with a \<^verbatim>\<open>continue\<close> that aborts the
  downlink without an acknowledgement (\<open>PARSE_ABORT\<close>), with an undefined cast of
  a number (\<open>PARSE_UNDEFINED\<close>), or gives the packet filled so far.
\<close>

datatype 'a parsed =
    PARSE_UNDEFINED
  | PARSE_ABORT
  | PARSED 'a

definition txpk_radio :: "down_env \<Rightarrow> json_object \<Rightarrow> lgw_pkt_tx_s \<Rightarrow> lgw_pkt_tx_s parsed" where
  "txpk_radio env txpk_obj txpkt =
     (let p1 = (case json_object_get_value txpk_obj ''ncrc'' of
                  Some val \<Rightarrow> txpkt\<lparr>no_crc := (json_value_get_boolean val \<noteq> 0)\<rparr>
                | None \<Rightarrow> txpkt);
          p2 = (case json_object_get_value txpk_obj ''nhdr'' of
                  Some val \<Rightarrow> p1\<lparr>no_header := (json_value_get_boolean val \<noteq> 0)\<rparr>
                | None \<Rightarrow> p1)
      in case json_object_get_value txpk_obj ''freq'' of
           None \<Rightarrow> PARSE_ABORT
         | Some fval \<Rightarrow>
            (case double_to_u32 (binary64 (1000000 * json_value_get_number fval)) of
               None \<Rightarrow> PARSE_UNDEFINED
             | Some f \<Rightarrow>
                (case json_object_get_value txpk_obj ''rfch'' of
                   None \<Rightarrow> PARSE_ABORT
                 | Some rval \<Rightarrow>
                    (case double_to_u8 (json_value_get_number rval) of
                       None \<Rightarrow> PARSE_UNDEFINED
                     | Some ch \<Rightarrow>
                         if \<not> tx_enable env ch then PARSE_ABORT
                         else
                           (case json_object_get_value txpk_obj ''powe'' of
                              None \<Rightarrow> PARSED (p2\<lparr>freq_hz := f, rf_chain := ch\<rparr>)
                            | Some pval \<Rightarrow>
                               (case double_to_i8 (json_value_get_number pval) of
                                  None \<Rightarrow> PARSE_UNDEFINED
                                | Some pw \<Rightarrow>
                                    PARSED (p2\<lparr>freq_hz := f, rf_chain := ch,
                                               rf_power := pw - antenna_gain env\<rparr>)))))))"

definition lora_datarate :: "int \<Rightarrow> u32 option" where
  "lora_datarate x0 =
     (if x0 = 5 then Some DR_LORA_SF5
      else if x0 = 6 then Some DR_LORA_SF6
      else if x0 = 7 then Some DR_LORA_SF7
      else if x0 = 8 then Some DR_LORA_SF8
      else if x0 = 9 then Some DR_LORA_SF9
      else if x0 = 10 then Some DR_LORA_SF10
      else if x0 = 11 then Some DR_LORA_SF11
      else if x0 = 12 then Some DR_LORA_SF12
      else None)"

definition lora_bandwidth :: "int \<Rightarrow> u8 option" where
  "lora_bandwidth x1 =
     (if x1 = 125 then Some BW_125KHZ
      else if x1 = 250 then Some BW_250KHZ
      else if x1 = 500 then Some BW_500KHZ
      else None)"

definition lora_coderate :: "string \<Rightarrow> u8 option" where
  "lora_coderate str =
     (if str = ''4/5'' then Some CR_LORA_4_5
      else if str = ''4/6'' then Some CR_LORA_4_6
      else if str = ''2/3'' then Some CR_LORA_4_6
      else if str = ''4/7'' then Some CR_LORA_4_7
      else if str = ''4/8'' then Some CR_LORA_4_8
      else if str = ''1/2'' then Some CR_LORA_4_8
      else None)"

text \<open>
  The preamble length: the optional field cast to \<^verbatim>\<open>int\<close>, not below the
  minimum, else the standard one; \<open>None\<close> when the cast is undefined.
\<close>

definition txpk_preamble :: "json_object \<Rightarrow> int \<Rightarrow> int \<Rightarrow> u16 option" where
  "txpk_preamble txpk_obj min_preamb std_preamb =
     (case json_object_get_value txpk_obj ''prea'' of
        Some val \<Rightarrow>
          (case double_to_int (- 2147483648) 2147483647 (json_value_get_number val) of
             None \<Rightarrow> None
           | Some i \<Rightarrow> Some (if min_preamb \<le> i then word_of_int i else word_of_int min_preamb))
      | None \<Rightarrow> Some (word_of_int std_preamb))"

definition txpk_modulation :: "down_env \<Rightarrow> json_object \<Rightarrow> lgw_pkt_tx_s \<Rightarrow> lgw_pkt_tx_s parsed" where
  "txpk_modulation env txpk_obj txpkt =
     (case json_object_get_string txpk_obj ''modu'' of
        None \<Rightarrow> PARSE_ABORT
      | Some str \<Rightarrow>
          if str = ''LORA'' then
            (case json_object_get_string txpk_obj ''datr'' of
               None \<Rightarrow> PARSE_ABORT
             | Some dstr \<Rightarrow>
                (case sscanf_datr env dstr of (i, x0, x1) \<Rightarrow>
                   if i \<noteq> 2 then PARSE_ABORT
                   else
                     (case lora_datarate x0 of
                        None \<Rightarrow> PARSE_ABORT
                      | Some dr \<Rightarrow>
                         (case lora_bandwidth x1 of
                            None \<Rightarrow> PARSE_ABORT
                          | Some bw \<Rightarrow>
                             (case json_object_get_string txpk_obj ''codr'' of
                                None \<Rightarrow> PARSE_ABORT
                              | Some cstr \<Rightarrow>
                                 (case lora_coderate cstr of
                                    None \<Rightarrow> PARSE_ABORT
                                  | Some cr \<Rightarrow>
                                     (let p1 = txpkt\<lparr>modulation := MOD_LORA, datarate := dr,
                                                      bandwidth := bw, coderate := cr\<rparr>;
                                          p2 = (case json_object_get_value txpk_obj ''ipol'' of
                                                  Some val \<Rightarrow>
                                                    p1\<lparr>invert_pol := (json_value_get_boolean val \<noteq> 0)\<rparr>
                                                | None \<Rightarrow> p1)
                                      in case txpk_preamble txpk_obj MIN_LORA_PREAMB
                                                STD_LORA_PREAMB of
                                           None \<Rightarrow> PARSE_UNDEFINED
                                         | Some pre \<Rightarrow> PARSED (p2\<lparr>preamble := pre\<rparr>))))))))
          else if str = ''FSK'' then
            (case json_object_get_value txpk_obj ''datr'' of
               None \<Rightarrow> PARSE_ABORT
             | Some dval \<Rightarrow>
                (case double_to_u32 (json_value_get_number dval) of
                   None \<Rightarrow> PARSE_UNDEFINED
                 | Some dr \<Rightarrow>
                    (case json_object_get_value txpk_obj ''fdev'' of
                       None \<Rightarrow> PARSE_ABORT
                     | Some fval \<Rightarrow>
                        (case double_to_u8 (binary64 (json_value_get_number fval / 1000)) of
                           None \<Rightarrow> PARSE_UNDEFINED
                         | Some fd \<Rightarrow>
                            (case txpk_preamble txpk_obj MIN_FSK_PREAMB STD_FSK_PREAMB of
                               None \<Rightarrow> PARSE_UNDEFINED
                             | Some pre \<Rightarrow>
                                 PARSED (txpkt\<lparr>modulation := MOD_FSK, datarate := dr,
                                               f_dev := fd, preamble := pre\<rparr>))))))
          else PARSE_ABORT)"

definition txpk_payload :: "down_env \<Rightarrow> json_object \<Rightarrow> lgw_pkt_tx_s \<Rightarrow> lgw_pkt_tx_s parsed" where
  "txpk_payload env txpk_obj txpkt =
     (case json_object_get_value txpk_obj ''size'' of
        None \<Rightarrow> PARSE_ABORT
      | Some sval \<Rightarrow>
         (case double_to_u16 (json_value_get_number sval) of
            None \<Rightarrow> PARSE_UNDEFINED
          | Some sz \<Rightarrow>
             (case json_object_get_string txpk_obj ''data'' of
                None \<Rightarrow> PARSE_ABORT
              | Some str \<Rightarrow>
                  PARSED (txpkt\<lparr>size_tx := sz, payload := snd (b64_to_bin env str)\<rparr>))))"

text \<open>
  What the handling of one datagram does: the TX\_ACK datagram sent, if any, the
  call of \<^verbatim>\<open>jit_enqueue\<close> made, if any (RF chain, packet, type), the counters
  and the two variables of the keep-alive.
\<close>

record down_result =
  tx_ack :: "u8 list option"
  jit_call :: "(u8 \<times> lgw_pkt_tx_s \<times> jit_pkt_type_e) option"
  meas :: meas_dw
  req_ack :: bool
  autoquit_cnt :: u32

text \<open>
  The end of the loop body, for a packet parsed without error: TX mode, counters,
  the frequency check, the power check against the gain table, the insertion in
  the JIT queue and the acknowledgement.
\<close>

definition downlink_enqueue ::
  "down_env \<Rightarrow> nat \<Rightarrow> u8 \<Rightarrow> u8 \<Rightarrow> bool \<Rightarrow> jit_pkt_type_e \<Rightarrow> lgw_pkt_tx_s \<Rightarrow> down_result
     \<Rightarrow> down_result" where
  "downlink_enqueue env msg_len token_h token_l sent_immediate downlink_type txpkt0 r =
     (let txpkt1 = txpkt0\<lparr>tx_mode := (if sent_immediate then IMMEDIATE else TIMESTAMPED)\<rparr>;
          m1 = (meas r)\<lparr>meas_dw_dgram_rcv := meas_dw_dgram_rcv (meas r) + 1,
                        meas_dw_network_byte := meas_dw_network_byte (meas r) + of_nat msg_len,
                        meas_dw_payload_byte := meas_dw_payload_byte (meas r) + ucast (size_tx txpkt1)\<rparr>;
          chain = rf_chain txpkt1;
          jit_result1 =
            (if freq_hz txpkt1 < tx_freq_min env chain \<or> tx_freq_max env chain < freq_hz txpkt1
             then JIT_ERROR_TX_FREQ else JIT_ERROR_OK);
          (i, tx_lut_idx) = get_tx_gain_lut_index (txlut env chain) (rf_power txpkt1);
          lut_power = lut_rf_power (lut (txlut env chain) ! unat tx_lut_idx);
          unsupported = (jit_result1 = JIT_ERROR_OK \<and> (i < 0 \<or> lut_power \<noteq> rf_power txpkt1));
          warning_result = (if unsupported then JIT_ERROR_TX_POWER else JIT_ERROR_OK);
          warning_value = (if unsupported then scast lut_power else (0 :: i32));
          txpkt = (if unsupported then txpkt1\<lparr>rf_power := lut_power\<rparr> else txpkt1)
      in if jit_result1 = JIT_ERROR_OK then
           (let enq = jit_enqueue env chain txpkt downlink_type;
                jit_result = (if enq \<noteq> JIT_ERROR_OK then enq else warning_result);
                m2 = m1\<lparr>meas_nb_tx_requested := meas_nb_tx_requested m1 + 1\<rparr>
            in case send_tx_ack (net_mac_h env) (net_mac_l env) m2 token_h token_l jit_result
                      warning_value of
                 (dgram, m3) \<Rightarrow>
                   r\<lparr>tx_ack := Some dgram, jit_call := Some (chain, txpkt, downlink_type),
                     meas := m3\<rparr>)
         else
           (case send_tx_ack (net_mac_h env) (net_mac_l env) m1 token_h token_l jit_result1
                   warning_value of
              (dgram, m3) \<Rightarrow> r\<lparr>tx_ack := Some dgram, meas := m3\<rparr>))"

text \<open>
  The handling of a PULL\_RESP whose JSON text has been parsed to \<open>root_val\<close>;
  \<open>None\<close> when a cast of a number of the request is undefined.
\<close>

definition pull_resp ::
  "down_env \<Rightarrow> u8 list \<Rightarrow> json_value option \<Rightarrow> down_result \<Rightarrow> down_result option" where
  "pull_resp env buff_down root_val r =
     (case root_val of
        None \<Rightarrow> Some r
      | Some root_v \<Rightarrow>
         (case json_object_get_object root_v ''txpk'' of
            None \<Rightarrow> Some r
          | Some txpk_obj \<Rightarrow>
             (case txpk_schedule env txpk_obj of
                SCHED_UNDEFINED \<Rightarrow> None
              | SCHED_ABORT \<Rightarrow> Some r
              | SCHED_GPS_UNLOCKED \<Rightarrow>
                 (case send_tx_ack (net_mac_h env) (net_mac_l env) (meas r)
                         (buff_down ! 1) (buff_down ! 2) JIT_ERROR_GPS_UNLOCKED 0 of
                    (dgram, m) \<Rightarrow> Some (r\<lparr>tx_ack := Some dgram, meas := m\<rparr>))
              | SCHED_OK sent_immediate cnt downlink_type \<Rightarrow>
                 (case txpk_radio env txpk_obj (txpkt_zero\<lparr>count_us := cnt\<rparr>) of
                    PARSE_UNDEFINED \<Rightarrow> None
                  | PARSE_ABORT \<Rightarrow> Some r
                  | PARSED p1 \<Rightarrow>
                     (case txpk_modulation env txpk_obj p1 of
                        PARSE_UNDEFINED \<Rightarrow> None
                      | PARSE_ABORT \<Rightarrow> Some r
                      | PARSED p2 \<Rightarrow>
                         (case txpk_payload env txpk_obj p2 of
                            PARSE_UNDEFINED \<Rightarrow> None
                          | PARSE_ABORT \<Rightarrow> Some r
                          | PARSED p3 \<Rightarrow>
                              Some (downlink_enqueue env (length buff_down) (buff_down ! 1)
                                      (buff_down ! 2) sent_immediate downlink_type p3 r)))))))"

text \<open>
  One datagram received on the downstream socket (\<open>buff_down\<close> holds the
  \<open>msg_len\<close> bytes received), after the beacon pre-allocation: the protocol
  checks, the PULL\_ACK with the token of the last PULL\_DATA, the PULL\_RESP.
  \<open>r\<close> holds the counters and keep-alive variables before the datagram, with no
  acknowledgement sent and no call made yet.
\<close>

definition thread_down_dgram ::
  "down_env \<Rightarrow> u8 \<Rightarrow> u8 \<Rightarrow> u8 list \<Rightarrow> json_value option \<Rightarrow> down_result
     \<Rightarrow> down_result option" where
  "thread_down_dgram env token_h token_l buff_down root_val r =
     (if length buff_down < 4 \<or> buff_down ! 0 \<noteq> PROTOCOL_VERSION
         \<or> (buff_down ! 3 \<noteq> PKT_PULL_RESP \<and> buff_down ! 3 \<noteq> PKT_PULL_ACK)
      then Some r
      else if buff_down ! 3 = PKT_PULL_ACK then
        (if buff_down ! 1 = token_h \<and> buff_down ! 2 = token_l then
           (if req_ack r then Some r
            else Some (r\<lparr>req_ack := True, autoquit_cnt := 0,
                         meas := (meas r)\<lparr>meas_dw_ack_rcv := meas_dw_ack_rcv (meas r) + 1\<rparr>\<rparr>))
         else Some r)
      else pull_resp env buff_down root_val r)"

text \<open>A packet, its texts and counters, for evaluating the loop body.\<close>

definition rx_text_sample :: rx_text where
  \<open>rx_text_sample =
     \<lparr>txt_jver = ''"jver":1'', txt_tmst = '',"tmst":1000'', txt_time = [], txt_ftime = [],
      txt_chan = '',"chan":0,"rfch":0,"freq":868.100000,"mid": 0'',
      txt_rssis = '',"rssis":-80'', txt_lsnr = '',"lsnr":7.5'', txt_foff = '',"foff":0'',
      txt_fsk_datr = '',"datr":50000'', txt_rssi_size = '',"rssi":-79,"size":0'',
      b64_ret = 0, b64_text = []\<rparr>\<close>

definition meas_up_zero :: meas_up where
  "meas_up_zero =
     \<lparr>meas_nb_rx_rcv = 0, meas_nb_rx_ok = 0, meas_nb_rx_bad = 0, meas_nb_rx_nocrc = 0,
      meas_up_pkt_fwd = 0, meas_up_network_byte = 0, meas_up_payload_byte = 0,
      meas_up_dgram_sent = 0, meas_up_ack_rcv = 0\<rparr>"

definition rx_pkt_sample :: "u32 \<Rightarrow> lgw_pkt_rx_s" where
  "rx_pkt_sample dr =
     \<lparr>rx_status = STAT_CRC_OK, rx_modulation = MOD_LORA, rx_datarate = dr,
      rx_bandwidth = BW_125KHZ, rx_coderate = CR_LORA_4_5, rx_size = 0,
      rx_ftime_received = False\<rparr>"

definition meas_dw_zero :: meas_dw where
  "meas_dw_zero =
     \<lparr>meas_dw_pull_sent = 0, meas_dw_ack_rcv = 0, meas_dw_dgram_rcv = 0,
      meas_dw_network_byte = 0, meas_dw_payload_byte = 0, meas_nb_tx_ok = 0,
      meas_nb_tx_fail = 0, meas_nb_tx_requested = 0,
      meas_nb_tx_rejected_collision_packet = 0, meas_nb_tx_rejected_collision_beacon = 0,
      meas_nb_tx_rejected_too_late = 0, meas_nb_tx_rejected_too_early = 0,
      meas_nb_beacon_queued = 0, meas_nb_beacon_sent = 0, meas_nb_beacon_rejected = 0\<rparr>"

text \<open>A beacon packet as \<^verbatim>\<open>thread_down\<close> queues it, on the frequency \<open>f\<close>.\<close>

definition beacon_pkt_sample :: "u32 \<Rightarrow> lgw_pkt_tx_s" where
  "beacon_pkt_sample f =
     \<lparr>freq_hz = f, tx_mode = ON_GPS, count_us = 1000000, rf_chain = 0, rf_power = 14,
      modulation = MOD_LORA, bandwidth = BW_125KHZ, datarate = DR_LORA_SF9,
      coderate = CR_LORA_4_5, invert_pol = False, f_dev = 0, preamble = 10,
      no_crc = True, no_header = True, size_tx = 17, payload = replicate 17 0\<rparr>"


text \<open>
  A configuration for evaluating the downstream loop: a gain table for 7, 10 and
  14 dBm in a zeroed array of 16 entries, TX between 863 and 870 MHz on every
  chain, GPS enabled or not and no valid time reference, an antenna gain, a JIT
  queue that answers \<open>e\<close>; a LoRa packet asking for the power \<open>pw\<close>; the
  variables before a datagram; and a downlink request with a scheduling member
  and a power. The numbers of the request are binary64 numbers.
\<close>

definition txlut_sample :: lgw_tx_gain_lut_s where
  "txlut_sample =
     \<lparr>lut = map (\<lambda>pw. \<lparr>lut_rf_power = pw\<rparr>) [7, 10, 14] @ replicate 13 \<lparr>lut_rf_power = 0\<rparr>,
      lut_size = 3\<rparr>"

definition down_env_sample :: "bool \<Rightarrow> i8 \<Rightarrow> jit_error_e \<Rightarrow> down_env" where
  "down_env_sample gps gain e =
     \<lparr>gps_enabled = gps, ref_valid = False, net_mac_h = 0xAA555A00, net_mac_l = 1,
      antenna_gain = gain, tx_enable = (\<lambda>_. True),
      tx_freq_min = (\<lambda>_. 863000000), tx_freq_max = (\<lambda>_. 870000000),
      txlut = (\<lambda>_. txlut_sample), lgw_gps2cnt = (\<lambda>sec nsec. (0, 0)),
      sscanf_datr = (\<lambda>_. (2, 7, 125)), b64_to_bin = (\<lambda>_. (0, [])),
      jit_enqueue = (\<lambda>_ _ _. e)\<rparr>"

definition txpkt_sample :: "i8 \<Rightarrow> lgw_pkt_tx_s" where
  "txpkt_sample pw =
     \<lparr>freq_hz = 868500000, tx_mode = 0, count_us = 5000000, rf_chain = 0, rf_power = pw,
      modulation = MOD_LORA, bandwidth = BW_125KHZ, datarate = DR_LORA_SF7,
      coderate = CR_LORA_4_5, invert_pol = False, f_dev = 0, preamble = 8,
      no_crc = False, no_header = False, size_tx = 0, payload = []\<rparr>"

definition down_result_init :: down_result where
  "down_result_init =
     \<lparr>tx_ack = None, jit_call = None, meas = meas_dw_zero, req_ack = False, autoquit_cnt = 1\<rparr>"

definition txpk_sample :: "string \<Rightarrow> real \<Rightarrow> real \<Rightarrow> json_object" where
  "txpk_sample sched t powe =
     [(sched, JSONNumber t), (''freq'', JSONNumber 868.5),
      (''rfch'', JSONNumber 0), (''powe'', JSONNumber powe), (''modu'', JSONString ''LORA''),
      (''datr'', JSONString ''SF7BW125''), (''codr'', JSONString ''4/5''),
      (''size'', JSONNumber 0), (''data'', JSONString [])]"

definition pull_resp_sample :: "string \<Rightarrow> real \<Rightarrow> real \<Rightarrow> json_value" where
  "pull_resp_sample sched t powe = JSONObject [(''txpk'', JSONObject (txpk_sample sched t powe))]"

section \<open>Properties\<close>

lemmas hal_defs =
  STAT_NO_CRC_def STAT_CRC_BAD_def STAT_CRC_OK_def MOD_LORA_def MOD_FSK_def
  BW_125KHZ_def BW_250KHZ_def BW_500KHZ_def
  DR_LORA_SF5_def DR_LORA_SF6_def DR_LORA_SF7_def DR_LORA_SF8_def
  DR_LORA_SF9_def DR_LORA_SF10_def DR_LORA_SF11_def DR_LORA_SF12_def
  CR_LORA_4_5_def CR_LORA_4_6_def CR_LORA_4_7_def CR_LORA_4_8_def

lemma length_tx_ack_header:
  "length (tx_ack_header token_h token_l mh ml) = 12"
  by (simp add: tx_ack_header_def store_u32_def)

lemma tx_ack_body_send:
  \<open>error \<noteq> JIT_ERROR_OK \<Longrightarrow>
   tx_ack_body (fst (send_tx_ack mh ml m tok_h tok_l error v)) =
     bytes_of (''{"txpk_ack":{'' @ tx_ack_key error @ fst (tx_ack_type error m)
               @ tx_ack_details error v @ ''}}'')\<close>
  by (simp add: send_tx_ack_def tx_ack_body_def length_tx_ack_header split: prod.split)

lemma tx_ack_token_send:
  "tx_ack_token (fst (send_tx_ack mh ml m tok_h tok_l error v)) = (tok_h, tok_l)"
  by (simp add: send_tx_ack_def tx_ack_token_def tx_ack_header_def split: prod.split)

text \<open>
  C10: when the JIT queue rejects a downlink with \<open>JIT_ERROR_FULL\<close>, the TX\_ACK
  carries the error string COLLISION\_PACKET, the same datagram and the same
  counters as for \<open>JIT_ERROR_COLLISION_PACKET\<close>: the collision-packet rejection
  counter is incremented and every other downstream counter is unchanged.
\<close>

theorem send_tx_ack_full_is_collision_packet:
  \<open>tx_ack_body (fst (send_tx_ack mh ml m tok_h tok_l JIT_ERROR_FULL v))
     = bytes_of ''{"txpk_ack":{"error":"COLLISION_PACKET"}}''
   \<and> send_tx_ack mh ml m tok_h tok_l JIT_ERROR_FULL v
     = send_tx_ack mh ml m tok_h tok_l JIT_ERROR_COLLISION_PACKET v
   \<and> snd (send_tx_ack mh ml m tok_h tok_l JIT_ERROR_FULL v)
     = m\<lparr>meas_nb_tx_rejected_collision_packet := meas_nb_tx_rejected_collision_packet m + 1\<rparr>\<close>
  by (simp add: send_tx_ack_def tx_ack_body_def length_tx_ack_header tx_ack_type_def
      tx_ack_key_def tx_ack_details_def)

subsection \<open>Upstream acknowledgements\<close>

lemma wait_push_ack_no_match:
  "(\<And>d. RECV_DGRAM d \<in> set rs \<Longrightarrow>
      length d < 4 \<or> d ! 0 \<noteq> PROTOCOL_VERSION \<or> d ! 3 \<noteq> PKT_PUSH_ACK
      \<or> d ! 1 \<noteq> token_h \<or> d ! 2 \<noteq> token_l)
   \<Longrightarrow> wait_push_ack token_h token_l rs m = m"
proof (induction rs)
  case Nil
  show ?case by simp
next
  case (Cons r rs)
  have rest: "wait_push_ack token_h token_l rs m = m"
    by (rule Cons.IH) (rule Cons.prems, simp)
  show ?case
  proof (cases r)
    case (RECV_DGRAM d)
    with Cons.prems [of d] rest show ?thesis by auto
  qed (simp_all add: rest)
qed

lemma wait_push_ack_counter:
  "meas_up_ack_rcv (wait_push_ack token_h token_l rs m) = meas_up_ack_rcv m
   \<or> meas_up_ack_rcv (wait_push_ack token_h token_l rs m) = meas_up_ack_rcv m + 1"
  by (induction rs) (auto split: recv_result.splits)

text \<open>
  C5: during the PUSH\_ACK wait, the counter \<open>meas_up_ack_rcv\<close> moves by at most
  one; when every datagram received in the window fails one of the checks (at least
  4 bytes, protocol version 2, type PUSH\_ACK, the token of the PUSH\_DATA just
  sent), the counters are left as they were; and a datagram that passes all of them
  increments the counter.
\<close>

theorem push_ack_token_isolation:
  "((\<forall>d. RECV_DGRAM d \<in> set recvs \<longrightarrow>
        length d < 4 \<or> d ! 0 \<noteq> 2 \<or> d ! 3 \<noteq> PKT_PUSH_ACK \<or> d ! 1 \<noteq> token_h \<or> d ! 2 \<noteq> token_l)
      \<longrightarrow> push_ack_window token_h token_l recvs m = m)
   \<and> (meas_up_ack_rcv (push_ack_window token_h token_l recvs m) = meas_up_ack_rcv m
        \<or> meas_up_ack_rcv (push_ack_window token_h token_l recvs m) = meas_up_ack_rcv m + 1)
   \<and> (4 \<le> length d0 \<and> d0 ! 0 = 2 \<and> d0 ! 3 = PKT_PUSH_ACK \<and> d0 ! 1 = token_h \<and> d0 ! 2 = token_l
        \<longrightarrow> push_ack_window token_h token_l (RECV_DGRAM d0 # recvs) m
              = m\<lparr>meas_up_ack_rcv := meas_up_ack_rcv m + 1\<rparr>)"
proof (intro conjI impI)
  assume none: "\<forall>d. RECV_DGRAM d \<in> set recvs \<longrightarrow>
        length d < 4 \<or> d ! 0 \<noteq> 2 \<or> d ! 3 \<noteq> PKT_PUSH_ACK \<or> d ! 1 \<noteq> token_h \<or> d ! 2 \<noteq> token_l"
  show "push_ack_window token_h token_l recvs m = m"
    unfolding push_ack_window_def
  proof (rule wait_push_ack_no_match)
    fix d
    assume "RECV_DGRAM d \<in> set (take 2 recvs)"
    then have "RECV_DGRAM d \<in> set recvs" by (rule in_set_takeD)
    with none show "length d < 4 \<or> d ! 0 \<noteq> PROTOCOL_VERSION \<or> d ! 3 \<noteq> PKT_PUSH_ACK
      \<or> d ! 1 \<noteq> token_h \<or> d ! 2 \<noteq> token_l"
      by (simp add: PROTOCOL_VERSION_def)
  qed
next
  show "meas_up_ack_rcv (push_ack_window token_h token_l recvs m) = meas_up_ack_rcv m
        \<or> meas_up_ack_rcv (push_ack_window token_h token_l recvs m) = meas_up_ack_rcv m + 1"
    unfolding push_ack_window_def by (rule wait_push_ack_counter)
next
  assume "4 \<le> length d0 \<and> d0 ! 0 = 2 \<and> d0 ! 3 = PKT_PUSH_ACK \<and> d0 ! 1 = token_h \<and> d0 ! 2 = token_l"
  then show "push_ack_window token_h token_l (RECV_DGRAM d0 # recvs) m
              = m\<lparr>meas_up_ack_rcv := meas_up_ack_rcv m + 1\<rparr>"
    by (simp add: push_ack_window_def PROTOCOL_VERSION_def numeral_2_eq_2)
qed

theorem push_ack_token_isolation_witness:
  "push_ack_window 0xAB 0xCD [RECV_DGRAM [2, 0xAB, 0xCE, 1], RECV_DGRAM [2, 0xAB, 0xCD]] meas_up_zero
     = meas_up_zero
   \<and> push_ack_window 0xAB 0xCD [RECV_DGRAM [2, 0xAB, 0xCD, 1], RECV_DGRAM [2, 0xAB, 0xCD]] meas_up_zero
     = meas_up_zero\<lparr>meas_up_ack_rcv := 1\<rparr>"
  using push_ack_token_isolation
    [of "[RECV_DGRAM [2, 0xAB, 0xCE, 1], RECV_DGRAM [2, 0xAB, 0xCD]]" "0xAB" "0xCD" meas_up_zero
        "[2, 0xAB, 0xCD, 1]"]
    push_ack_token_isolation
    [of "[RECV_DGRAM [2, 0xAB, 0xCD]]" "0xAB" "0xCD" meas_up_zero "[2, 0xAB, 0xCD, 1]"]
  by (simp add: PKT_PUSH_ACK_def meas_up_zero_def push_ack_window_def)

subsection \<open>Upstream packets\<close>

text \<open>
  C9, as stated, fails: a LoRa packet with a good CRC and the datarate value 13
  makes the upstream thread call \<^verbatim>\<open>exit(EXIT_FAILURE)\<close>.
\<close>

theorem serialize_rxpk_unknown_datarate_exits:
  "fst (serialize_rxpk True True True False 0 rx_text_sample (rx_pkt_sample 13) meas_up_zero)
     = RXPK_EXIT"
  by (simp add: serialize_rxpk_def rx_filter_def rx_pkt_sample_def stat_text_def modu_text_def
      datr_text_def hal_defs Let_def)

text \<open>
  C9, amended: a packet whose status is none of CRC\_OK, CRC\_BAD, NO\_CRC, or whose
  status class the configuration does not forward, is skipped; a packet that passes
  this filter is forwarded when its modulation is FSK, or LoRa with a datarate SF5
  to SF12, a bandwidth of 125, 250 or 500 kHz and a coderate 4/5 to 4/8 or 0, and
  its payload is encoded; a packet that passes the filter with any other modulation,
  LoRa datarate, bandwidth or coderate makes the process exit.
\<close>

theorem serialize_rxpk_outcomes:
  "(if (rx_status p = STAT_CRC_OK \<and> fwd_valid_pkt) \<or> (rx_status p = STAT_CRC_BAD \<and> fwd_error_pkt)
       \<or> (rx_status p = STAT_NO_CRC \<and> fwd_nocrc_pkt)
    then
      (if rx_modulation p = MOD_FSK
          \<or> (rx_modulation p = MOD_LORA
             \<and> rx_datarate p \<in> {DR_LORA_SF5, DR_LORA_SF6, DR_LORA_SF7, DR_LORA_SF8,
                                  DR_LORA_SF9, DR_LORA_SF10, DR_LORA_SF11, DR_LORA_SF12}
             \<and> rx_bandwidth p \<in> {BW_125KHZ, BW_250KHZ, BW_500KHZ}
             \<and> rx_coderate p \<in> {CR_LORA_4_5, CR_LORA_4_6, CR_LORA_4_7, CR_LORA_4_8, 0})
       then (0 \<le> b64_ret t \<longrightarrow>
               (\<exists>js. fst (serialize_rxpk fwd_valid_pkt fwd_error_pkt fwd_nocrc_pkt ref_ok n t p m)
                      = RXPK_JSON js))
       else fst (serialize_rxpk fwd_valid_pkt fwd_error_pkt fwd_nocrc_pkt ref_ok n t p m)
              = RXPK_EXIT)
    else fst (serialize_rxpk fwd_valid_pkt fwd_error_pkt fwd_nocrc_pkt ref_ok n t p m) = RXPK_SKIP)"
  by (auto simp add: serialize_rxpk_def rx_filter_def stat_text_def modu_text_def
      datr_text_def bw_text_def codr_text_def hal_defs Let_def
      split: option.splits if_splits)

theorem serialize_rxpk_outcomes_witness:
  "(\<exists>js. fst (serialize_rxpk True True True False 0 rx_text_sample (rx_pkt_sample 7) meas_up_zero)
           = RXPK_JSON js)
   \<and> fst (serialize_rxpk False True True False 0 rx_text_sample (rx_pkt_sample 7) meas_up_zero)
       = RXPK_SKIP"
  using serialize_rxpk_outcomes
      [where p = "rx_pkt_sample 7" and fwd_valid_pkt = True and fwd_error_pkt = True
         and fwd_nocrc_pkt = True and t = rx_text_sample and ref_ok = False and n = 0
         and m = meas_up_zero]
    serialize_rxpk_outcomes
      [where p = "rx_pkt_sample 7" and fwd_valid_pkt = False and fwd_error_pkt = True
         and fwd_nocrc_pkt = True and t = rx_text_sample and ref_ok = False and n = 0
         and m = meas_up_zero]
  by (simp add: rx_pkt_sample_def rx_text_sample_def hal_defs)

subsection \<open>The XTAL correction\<close>








subsection \<open>Beacon pre-allocation\<close>

lemma c_rem_nonneg: "0 \<le> a \<Longrightarrow> 0 < b \<Longrightarrow> c_rem a b = a mod b"
  by (cases "a = 0") (simp_all add: c_rem_def)

lemma next_beacon_formula:
  assumes "beacon_period \<noteq> 0" "0 \<le> ref_gps_sec" "0 \<le> retry v"
    "retry v * uint beacon_period < 2 ^ 32"
  shows "next_beacon_gps_time_sec beacon_period ref_gps_sec v
         = (if last_beacon_gps_time_sec v \<noteq> 0 then last_beacon_gps_time_sec v
            else ref_gps_sec div uint beacon_period * uint beacon_period)
           + uint beacon_period * (1 + retry v)"
proof -
  let ?p = "uint beacon_period"
  from assms(1) have p: "0 < ?p"
    using uint_ge_0 [of beacon_period] by (simp add: order_less_le uint_0_iff)
  from assms(3) p have "0 \<le> retry v * ?p" by simp
  with assms(4) have wrap: "(retry v * ?p) mod 2 ^ 32 = retry v * ?p" by simp
  have al: "ref_gps_sec + (?p - ref_gps_sec mod ?p) = ref_gps_sec div ?p * ?p + ?p"
    using div_mult_mod_eq [of ref_gps_sec ?p] by linarith
  show ?thesis
    unfolding next_beacon_gps_time_sec_def Let_def wrap
    using al by (simp add: c_rem_nonneg [OF assms(2) p] algebra_simps)
qed

text \<open>
  C6: in an iteration of the beacon pre-allocation (the period is not zero, the
  GPS second of the reference is not negative, and \<open>retry * beacon_period\<close> is
  below \<open>2 ^ 32\<close>, where the unsigned product of the source does not wrap) the
  target second is the last beacon second when that is not zero, otherwise the
  reference second rounded down to a multiple of the period, plus
  \<open>beacon_period * (1 + retry)\<close>. When the enqueue succeeds the last beacon second
  becomes the target and \<open>retry\<close> becomes 0 (one beacon more queued, one less to
  place); on \<open>JIT_ERROR_COLLISION_BEACON\<close> only \<open>retry\<close> is incremented; on every
  other failure the beacon-rejected counter and \<open>retry\<close> are incremented.
\<close>

theorem beacon_iteration_target:
  "beacon_period \<noteq> 0 \<and> 0 \<le> ref_gps_sec \<and> 0 \<le> retry v \<and> retry v * uint beacon_period < 2 ^ 32 \<longrightarrow>
     next_beacon_gps_time_sec beacon_period ref_gps_sec v
       = (if last_beacon_gps_time_sec v \<noteq> 0 then last_beacon_gps_time_sec v
          else ref_gps_sec div uint beacon_period * uint beacon_period)
         + uint beacon_period * (1 + retry v)
   \<and> beacon_iteration True True beacon_period ref_gps_sec JIT_ERROR_OK (v, m)
       = Some (v\<lparr>beacon_loop := beacon_loop v - 1, retry := 0,
                 last_beacon_gps_time_sec := next_beacon_gps_time_sec beacon_period ref_gps_sec v\<rparr>,
               m\<lparr>meas_nb_beacon_queued := meas_nb_beacon_queued m + 1\<rparr>)
   \<and> beacon_iteration True True beacon_period ref_gps_sec JIT_ERROR_COLLISION_BEACON (v, m)
       = Some (v\<lparr>retry := retry v + 1\<rparr>, m)
   \<and> (jit_result \<noteq> JIT_ERROR_OK \<and> jit_result \<noteq> JIT_ERROR_COLLISION_BEACON \<longrightarrow>
        beacon_iteration True True beacon_period ref_gps_sec jit_result (v, m)
          = Some (v\<lparr>retry := retry v + 1\<rparr>,
                  m\<lparr>meas_nb_beacon_rejected := meas_nb_beacon_rejected m + 1\<rparr>))"
  by (simp add: next_beacon_formula beacon_iteration_def Let_def)

theorem beacon_iteration_target_witness:
  "next_beacon_gps_time_sec 128 1280000005 \<lparr>beacon_loop = 8, retry = 2, last_beacon_gps_time_sec = 0\<rparr>
     = 1280000384
   \<and> beacon_iteration True True 128 1280000005 JIT_ERROR_TOO_LATE
        (\<lparr>beacon_loop = 8, retry = 2, last_beacon_gps_time_sec = 0\<rparr>, meas_dw_zero)
     = Some (\<lparr>beacon_loop = 8, retry = 3, last_beacon_gps_time_sec = 0\<rparr>,
             meas_dw_zero\<lparr>meas_nb_beacon_rejected := 1\<rparr>)"
  using beacon_iteration_target
    [of 128 1280000005 "\<lparr>beacon_loop = 8, retry = 2, last_beacon_gps_time_sec = 0\<rparr>"
        meas_dw_zero JIT_ERROR_TOO_LATE]
  by (simp add: meas_dw_zero_def)

subsection \<open>The TX gain table\<close>

lemma i8_diff_u8:
  fixes a b :: i8
  assumes "0 \<le> sint a - sint b"
  shows "uint (word_of_int (sint a - sint b) :: u8) = sint a - sint b"
proof -
  have "sint a < 128" "- 128 \<le> sint b"
    using sint_lt [of a] sint_ge [of b] by simp_all
  then have "sint a - sint b < 256" by linarith
  with assms have "(sint a - sint b) mod 2 ^ LENGTH(8) = sint a - sint b" by simp
  then show ?thesis by (simp only: uint_word_of_int)
qed

lemma lut_search_best:
  assumes "unat (lut_size l) \<le> length (lut l)"
    and "k \<le> unat (lut_size l)"
    and "(bi = - 1 \<and> (\<forall>j<k. sint p < sint (lut_rf_power (lut l ! j))))
       \<or> (0 \<le> bi \<and> nat bi < k
           \<and> sint (lut_rf_power (lut l ! nat bi)) \<le> sint p
           \<and> uint bm = sint p - sint (lut_rf_power (lut l ! nat bi))
           \<and> (\<forall>j<k. sint (lut_rf_power (lut l ! j)) \<le> sint p \<longrightarrow>
                  sint (lut_rf_power (lut l ! j)) \<le> sint (lut_rf_power (lut l ! nat bi))))"
  shows "(lut_search l p k bi bm = - 1
          \<and> (\<forall>j<unat (lut_size l). sint p < sint (lut_rf_power (lut l ! j))))
       \<or> (0 \<le> lut_search l p k bi bm \<and> nat (lut_search l p k bi bm) < unat (lut_size l)
           \<and> sint (lut_rf_power (lut l ! nat (lut_search l p k bi bm))) \<le> sint p
           \<and> (\<forall>j<unat (lut_size l). sint (lut_rf_power (lut l ! j)) \<le> sint p \<longrightarrow>
                  sint (lut_rf_power (lut l ! j))
                    \<le> sint (lut_rf_power (lut l ! nat (lut_search l p k bi bm)))))"
  using assms
proof (induction l p k bi bm rule: lut_search.induct)
  case (1 l p k bi bm)
  let ?n = "unat (lut_size l)"
  let ?P = "\<lambda>j. sint (lut_rf_power (lut l ! j))"
  show ?case
  proof (cases "k < ?n")
    case False
    with "1.prems"(2) have k: "k = ?n" by simp
    from False have res: "lut_search l p k bi bm = bi"
      by (simp add: lut_search.simps [of l p k])
    show ?thesis unfolding res using "1.prems"(3) k by auto
  next
    case True
    let ?diff = "sint p - ?P k"
    show ?thesis
    proof (cases "?diff < 0")
      case neg: True
      with True have res: "lut_search l p k bi bm = lut_search l p (k + 1) bi bm"
        by (simp add: lut_search.simps [of l p k] Let_def)
      have inv: "(bi = - 1 \<and> (\<forall>j<k + 1. sint p < ?P j))
       \<or> (0 \<le> bi \<and> nat bi < k + 1 \<and> ?P (nat bi) \<le> sint p
           \<and> uint bm = sint p - ?P (nat bi)
           \<and> (\<forall>j<k + 1. ?P j \<le> sint p \<longrightarrow> ?P j \<le> ?P (nat bi)))"
        using "1.prems"(3) neg by (auto simp add: less_Suc_eq)
      from True have "k + 1 \<le> ?n" by simp
      from "1.IH"(1) [OF True refl neg "1.prems"(1) this inv]
      show ?thesis unfolding res .
    next
      case nonneg: False
      show ?thesis
      proof (cases "bi = - 1 \<or> ?diff < uint bm")
        case better: True
        with True nonneg have res: "lut_search l p k bi bm
            = lut_search l p (k + 1) (int k) (word_of_int ?diff)"
          by (simp add: lut_search.simps [of l p k] Let_def)
        from nonneg have u: "uint (word_of_int ?diff :: u8) = ?diff"
          by (intro i8_diff_u8) simp
        have inv: "(int k = - 1 \<and> (\<forall>j<k + 1. sint p < ?P j))
         \<or> (0 \<le> int k \<and> nat (int k) < k + 1 \<and> ?P (nat (int k)) \<le> sint p
             \<and> uint (word_of_int ?diff :: u8) = sint p - ?P (nat (int k))
             \<and> (\<forall>j<k + 1. ?P j \<le> sint p \<longrightarrow> ?P j \<le> ?P (nat (int k))))"
          using "1.prems"(3) nonneg better u by (auto simp add: less_Suc_eq)
        from True have "k + 1 \<le> ?n" by simp
        from "1.IH"(2) [OF True refl nonneg better "1.prems"(1) this inv]
        show ?thesis unfolding res .
      next
        case worse: False
        with True nonneg have res: "lut_search l p k bi bm = lut_search l p (k + 1) bi bm"
          by (simp add: lut_search.simps [of l p k] Let_def)
        have inv: "(bi = - 1 \<and> (\<forall>j<k + 1. sint p < ?P j))
         \<or> (0 \<le> bi \<and> nat bi < k + 1 \<and> ?P (nat bi) \<le> sint p
             \<and> uint bm = sint p - ?P (nat bi)
             \<and> (\<forall>j<k + 1. ?P j \<le> sint p \<longrightarrow> ?P j \<le> ?P (nat bi)))"
          using "1.prems"(3) nonneg worse by (auto simp add: less_Suc_eq)
        from True have "k + 1 \<le> ?n" by simp
        from "1.IH"(3) [OF True refl nonneg worse "1.prems"(1) this inv]
        show ?thesis unfolding res .
      qed
    qed
  qed
qed

lemma get_tx_gain_lut_index_lower:
  assumes sz: "unat (lut_size l) \<le> length (lut l)"
    and ex: "\<exists>j<unat (lut_size l). sint (lut_rf_power (lut l ! j)) \<le> sint p"
  shows "fst (get_tx_gain_lut_index l p) = 0
       \<and> unat (snd (get_tx_gain_lut_index l p)) < unat (lut_size l)
       \<and> sint (lut_rf_power (lut l ! unat (snd (get_tx_gain_lut_index l p)))) \<le> sint p
       \<and> (\<forall>j<unat (lut_size l). sint (lut_rf_power (lut l ! j)) \<le> sint p \<longrightarrow>
              sint (lut_rf_power (lut l ! j))
                \<le> sint (lut_rf_power (lut l ! unat (snd (get_tx_gain_lut_index l p)))))"
proof -
  let ?R = "lut_search l p 0 (- 1) 0xFF"
  let ?n = "unat (lut_size l)"
  have "(?R = - 1 \<and> (\<forall>j<?n. sint p < sint (lut_rf_power (lut l ! j))))
       \<or> (0 \<le> ?R \<and> nat ?R < ?n
           \<and> sint (lut_rf_power (lut l ! nat ?R)) \<le> sint p
           \<and> (\<forall>j<?n. sint (lut_rf_power (lut l ! j)) \<le> sint p \<longrightarrow>
                  sint (lut_rf_power (lut l ! j)) \<le> sint (lut_rf_power (lut l ! nat ?R))))"
    by (rule lut_search_best [OF sz]) simp_all
  with ex have R: "0 \<le> ?R" "nat ?R < ?n"
    "sint (lut_rf_power (lut l ! nat ?R)) \<le> sint p"
    "\<forall>j<?n. sint (lut_rf_power (lut l ! j)) \<le> sint p \<longrightarrow>
                  sint (lut_rf_power (lut l ! j)) \<le> sint (lut_rf_power (lut l ! nat ?R))"
    by (auto simp add: not_less [symmetric])
  have "?n < 256" using unsigned_less [of "lut_size l", where ?'a = nat] by simp
  with R(1,2) have "?R < 256" by linarith
  with R(1) have u: "unat (word_of_int ?R :: u8) = nat ?R"
    by (simp add: unat_eq_nat_uint uint_word_of_int)
  from R(1) have g: "get_tx_gain_lut_index l p = (0, word_of_int ?R)"
    by (simp add: get_tx_gain_lut_index_def Let_def)
  show ?thesis unfolding g using R u by simp
qed

subsection \<open>Rounding to binary64\<close>

lemma bit_length_bounds:
  "0 < n \<Longrightarrow> 2 ^ (bit_length n - 1) \<le> n \<and> n < 2 ^ bit_length n"
proof (induction n rule: bit_length.induct)
  case (1 n)
  show ?case
  proof (cases "n div 2 = 0")
    case True
    with "1.prems" have "n = 1" by (simp add: div_eq_0_iff)
    then show ?thesis by (simp add: bit_length.simps)
  next
    case False
    then have h: "0 < n div 2" by simp
    from "1.prems" have bl: "bit_length n = Suc (bit_length (n div 2))"
      by (simp add: bit_length.simps [of n])
    from "1.IH" [OF _ h] "1.prems"
    have ih: "2 ^ (bit_length (n div 2) - 1) \<le> n div 2" "n div 2 < 2 ^ bit_length (n div 2)"
      by simp_all
    from h have pos: "0 < bit_length (n div 2)"
      by (simp add: bit_length.simps [of "n div 2"])
    then have "(2::nat) ^ bit_length (n div 2) = 2 * 2 ^ (bit_length (n div 2) - 1)"
      by (cases "bit_length (n div 2)") simp_all
    with ih show ?thesis unfolding bl by simp linarith
  qed
qed

lemma round_even_of_int: "round_even (of_int k) = k"
  by (simp add: round_even_def)

lemma round_even_bounds: "\<lfloor>q\<rfloor> \<le> round_even q \<and> round_even q \<le> \<lceil>q\<rceil>"
  unfolding round_even_def Let_def
  by (auto simp add: ceiling_altdef)

lemma round_even_ge_int: "of_int k \<le> q \<Longrightarrow> k \<le> round_even q"
  using round_even_bounds [of q] le_floor_iff [of k q] by linarith

lemma round_even_le_int: "q \<le> of_int k \<Longrightarrow> round_even q \<le> k"
  using round_even_bounds [of q] ceiling_le_iff [of q k] by linarith

lemma round_even_error: "\<bar>of_int (round_even q) - q\<bar> \<le> 1 / 2"
  unfolding round_even_def Let_def by (auto simp add: abs_le_iff)

lemma binary64_exponent_bounds:
  assumes "x \<noteq> 0"
  shows "2 powi binary64_exponent x \<le> \<bar>x\<bar> \<and> \<bar>x\<bar> < 2 powi (binary64_exponent x + 1)"
proof (cases "1 \<le> \<bar>x\<bar>")
  case True
  let ?n = "nat \<lfloor>\<bar>x\<bar>\<rfloor>"
  let ?f = "bit_length ?n"
  from True have n: "0 < ?n" by simp
  from bit_length_bounds [OF n] have b: "2 ^ (?f - 1) \<le> ?n" "?n < 2 ^ ?f" by simp_all
  from n have f: "0 < ?f" by (simp add: bit_length.simps [of ?n])
  have e: "binary64_exponent x = int (?f - 1)" using True f by (simp add: binary64_exponent_def)
  have "real ?n \<le> \<bar>x\<bar>" using True by simp
  moreover from b(1) have "(2::real) ^ (?f - 1) \<le> real ?n"
    by (metis of_nat_le_iff of_nat_numeral of_nat_power)
  ultimately have lo: "(2::real) ^ (?f - 1) \<le> \<bar>x\<bar>" by linarith
  have "\<bar>x\<bar> < real ?n + 1" using True by simp
  moreover from b(2) have "real ?n + 1 \<le> (2::real) ^ ?f"
    by (metis Suc_leI of_nat_Suc of_nat_le_iff of_nat_numeral of_nat_power add.commute)
  ultimately have hi: "\<bar>x\<bar> < (2::real) ^ ?f" by linarith
  have p1: "(2::real) powi binary64_exponent x = 2 ^ (?f - 1)"
    unfolding e by (rule power_int_of_nat)
  have "binary64_exponent x + 1 = int ?f" using f unfolding e by linarith
  then have p2: "(2::real) powi (binary64_exponent x + 1) = 2 ^ ?f"
    by (simp only: power_int_of_nat)
  from lo hi show ?thesis unfolding p1 p2 ..
next
  case False
  let ?y = "1 / \<bar>x\<bar>"
  let ?m = "nat (\<lceil>?y\<rceil> - 1)"
  let ?f = "bit_length ?m"
  from False assms have x: "0 < \<bar>x\<bar>" "\<bar>x\<bar> < 1" by simp_all
  then have y: "1 < ?y" by simp
  then have c: "2 \<le> \<lceil>?y\<rceil>" by linarith
  then have m: "0 < ?m" by simp
  from bit_length_bounds [OF m] have b: "2 ^ (?f - 1) \<le> ?m" "?m < 2 ^ ?f" by simp_all
  from m have f: "0 < ?f" by (simp add: bit_length.simps [of ?m])
  have e: "binary64_exponent x = - int ?f" using False by (simp add: binary64_exponent_def)
  from c have k: "0 \<le> \<lceil>?y\<rceil> - 1" by linarith
  have "real ?m = of_int (\<lceil>?y\<rceil> - 1)" using k by (rule of_nat_nat)
  then have rm: "real ?m = of_int \<lceil>?y\<rceil> - 1" by (simp only: of_int_diff of_int_1)
  have "?y \<le> of_int \<lceil>?y\<rceil>" by (rule le_of_int_ceiling)
  moreover from b(2) have "real ?m + 1 \<le> (2::real) ^ ?f"
    by (metis Suc_leI of_nat_Suc of_nat_le_iff of_nat_numeral of_nat_power add.commute)
  ultimately have yle: "?y \<le> 2 ^ ?f" using rm by linarith
  have "of_int \<lceil>?y\<rceil> - 1 < ?y" by linarith
  moreover from b(1) have "(2::real) ^ (?f - 1) \<le> real ?m"
    by (metis of_nat_le_iff of_nat_numeral of_nat_power)
  ultimately have ygt: "(2::real) ^ (?f - 1) < ?y" using rm by linarith
  from yle x(1) have lo: "1 / (2::real) ^ ?f \<le> \<bar>x\<bar>"
    by (simp add: field_simps del: abs_le_iff)
  from ygt x(1) have hi: "\<bar>x\<bar> < 1 / (2::real) ^ (?f - 1)"
    by (simp add: field_simps del: abs_less_iff)
  have p1: "(2::real) powi binary64_exponent x = 1 / 2 ^ ?f"
    unfolding e by (simp only: power_int_minus power_int_of_nat inverse_eq_divide)
  have "binary64_exponent x + 1 = - int (?f - 1)" using f unfolding e by linarith
  then have p2: "(2::real) powi (binary64_exponent x + 1) = 1 / 2 ^ (?f - 1)"
    by (simp only: power_int_minus power_int_of_nat inverse_eq_divide)
  from lo hi show ?thesis unfolding p1 p2 ..
qed

lemma binary64_error:
  assumes "x \<noteq> 0"
  shows "\<bar>binary64 x - x\<bar> \<le> 2 powi (binary64_exponent x - 53)"
proof -
  let ?u = "(2::real) powi (binary64_exponent x - 52)"
  have upos: "0 < ?u" by simp
  have "binary64 x - x = (of_int (round_even (x / ?u)) - x / ?u) * ?u"
    using assms by (simp add: binary64_def Let_def algebra_simps)
  then have "\<bar>binary64 x - x\<bar> = \<bar>of_int (round_even (x / ?u)) - x / ?u\<bar> * ?u"
    using upos by (simp add: abs_mult)
  also have "\<dots> \<le> 1 / 2 * ?u"
    using round_even_error [of "x / ?u"] upos by (intro mult_right_mono) simp_all
  also have "1 / 2 * ?u = 2 powi (binary64_exponent x - 53)"
    by (simp add: power_int_diff)
  finally show ?thesis .
qed

lemma binary64_half:
  "\<bar>binary64 x - x\<bar> \<le> \<bar>x\<bar> / 2"
proof (cases "x = 0")
  case True
  then show ?thesis by (simp add: binary64_def)
next
  case False
  let ?e = "binary64_exponent x"
  have "(2::real) powi (?e - 53) = 2 powi ?e / 2 ^ 53"
    by (simp add: power_int_diff)
  also have "\<dots> \<le> 2 powi ?e / 2" by (simp add: field_simps)
  also have "\<dots> \<le> \<bar>x\<bar> / 2"
    using binary64_exponent_bounds [OF False] by (simp del: abs_le_iff)
  finally show ?thesis using binary64_error [OF False] by linarith
qed

lemma binary64_scaled:
  assumes "\<bar>x\<bar> * 2 ^ j < 2 ^ 53"
  shows "(of_int k \<le> x * 2 ^ j \<longrightarrow> of_int k \<le> binary64 x * 2 ^ j)
       \<and> (x * 2 ^ j \<le> of_int k \<longrightarrow> binary64 x * 2 ^ j \<le> of_int k)"
proof (cases "x = 0")
  case True
  then show ?thesis by (simp add: binary64_def)
next
  case False
  let ?e = "binary64_exponent x"
  let ?u = "(2::real) powi (?e - 52)"
  from binary64_exponent_bounds [OF False] have "2 powi ?e \<le> \<bar>x\<bar>" ..
  then have "2 powi ?e * 2 ^ j \<le> \<bar>x\<bar> * 2 ^ j" by (simp del: abs_le_iff)
  with assms have "(2::real) powi ?e * 2 ^ j < 2 ^ 53" by linarith
  then have lt: "(2::real) powi (?e + int j) < 2 powi 53"
    by (simp add: power_int_add)
  have ej: "?e + int j < 53"
  proof (rule ccontr)
    assume "\<not> ?e + int j < 53"
    then have "53 \<le> ?e + int j" by simp
    then have "(2::real) powi 53 \<le> 2 powi (?e + int j)"
      by (rule power_int_increasing) simp
    with lt show False by simp
  qed
  define d where "d = nat (52 - ?e - int j)"
  let ?N = "(2::int) ^ d"
  have "?e - 52 = - int (d + j)" using ej by (simp add: d_def)
  then have "?u = inverse (2 ^ (d + j))"
    by (simp only: power_int_minus power_int_of_nat)
  then have u: "?u = 1 / (of_int ?N * 2 ^ j)"
    by (simp add: power_add inverse_eq_divide)
  have Npos: "0 < (of_int ?N :: real)" by simp
  have xu: "x / ?u = x * 2 ^ j * of_int ?N" by (simp add: u)
  have b: "binary64 x * 2 ^ j = of_int (round_even (x / ?u)) / of_int ?N"
    using False by (simp add: binary64_def Let_def u)
  show ?thesis
  proof (intro conjI impI)
    assume "of_int k \<le> x * 2 ^ j"
    then have "of_int (k * ?N) \<le> x * 2 ^ j * of_int ?N"
      using Npos by (simp add: mult_right_mono)
    then have "k * ?N \<le> round_even (x / ?u)" unfolding xu by (rule round_even_ge_int)
    then have "of_int k * (of_int ?N :: real) \<le> of_int (round_even (x / ?u))"
      by (metis of_int_le_iff of_int_mult)
    then show "of_int k \<le> binary64 x * 2 ^ j"
      unfolding b using Npos by (simp add: pos_le_divide_eq)
  next
    assume "x * 2 ^ j \<le> of_int k"
    then have "x * 2 ^ j * of_int ?N \<le> of_int (k * ?N)"
      using Npos by (simp add: mult_right_mono)
    then have "round_even (x / ?u) \<le> k * ?N" unfolding xu by (rule round_even_le_int)
    then have "of_int (round_even (x / ?u)) \<le> of_int k * (of_int ?N :: real)"
      by (metis of_int_le_iff of_int_mult)
    then show "binary64 x * 2 ^ j \<le> of_int k"
      unfolding b using Npos by (simp add: pos_divide_le_eq)
  qed
qed

lemma binary64_between:
  assumes "\<bar>x\<bar> < 2 ^ 53"
  shows "of_int \<lfloor>x\<rfloor> \<le> binary64 x \<and> binary64 x \<le> of_int \<lceil>x\<rceil>"
  using binary64_scaled [of x 0 "\<lfloor>x\<rfloor>"] binary64_scaled [of x 0 "\<lceil>x\<rceil>"] assms
  by simp

lemma binary64_nonneg: "0 \<le> x \<Longrightarrow> 0 \<le> binary64 x"
  using binary64_half [of x] by linarith

subsection \<open>Truncation and the conversions\<close>

lemma sint_i32_of_int:
  "- 2147483648 \<le> k \<Longrightarrow> k < 2147483648 \<Longrightarrow> sint (word_of_int k :: 32 word) = k"
  by (simp add: sint_sbintrunc' signed_take_bit_int_eq_self)

lemma c_trunc_of_int: "c_trunc (of_int k) = k"
  by (simp add: c_trunc_def)

lemma double_to_u32_Some:
  "double_to_u32 x = Some f \<Longrightarrow> f = word_of_int (c_trunc x) \<and> uint f = c_trunc x"
  unfolding double_to_u32_def double_to_int_def
  by (auto split: if_splits simp add: uint_word_of_int take_bit_int_eq_self)

lemma double_to_u32_defined:
  "0 \<le> c_trunc x \<Longrightarrow> c_trunc x \<le> 4294967295 \<Longrightarrow> double_to_u32 x = Some (word_of_int (c_trunc x))"
  by (simp add: double_to_u32_def double_to_int_def)

subsection \<open>The frequency of a dispatched beacon\<close>

lemma thread_jit_chain_beacon_sent:
  assumes "thread_jit_chain xc peek (deq_result, pkt, JIT_PKT_TYPE_BEACON) status send_ret m
             = Some (Some sent, m')"
  shows "beacon_freq_corrected xc (freq_hz pkt) = Some (freq_hz sent)
         \<and> sent = pkt\<lparr>freq_hz := freq_hz sent\<rparr>"
  using assms
  by (auto simp add: thread_jit_chain_def Let_def split: prod.splits if_splits option.splits)

lemma floor_binary64_between:
  assumes "0 \<le> x" "binary64 x < 4294967296"
  shows "\<lfloor>x\<rfloor> \<le> \<lfloor>binary64 x\<rfloor> \<and> \<lfloor>binary64 x\<rfloor> \<le> \<lceil>x\<rceil>"
proof -
  from binary64_half [of x] assms have "\<bar>x\<bar> < 9007199254740992" by linarith
  then have "\<bar>x\<bar> < 2 ^ 53" by simp
  from binary64_between [OF this]
  have "of_int \<lfloor>x\<rfloor> \<le> binary64 x" "binary64 x \<le> of_int \<lceil>x\<rceil>" by simp_all
  then show ?thesis by (simp add: le_floor_iff floor_le_iff)
qed

text \<open>
  C8, as stated, fails: with the correction \<open>1 + 2\<^sup>-\<^sup>2\<^sup>0\<close> a beacon stored
  at 868100000 Hz is handed to the radio at 868100827 Hz, while the product
  868100827.88 (a binary64 number) rounds to 868100828.
\<close>

theorem thread_jit_beacon_freq_not_rounded:
  "map_option fst (thread_jit_chain (1 + 1 / 1048576) (JIT_ERROR_OK, 0)
          (JIT_ERROR_OK, beacon_pkt_sample 868100000, JIT_PKT_TYPE_BEACON) (0, 2) 0 meas_dw_zero)
     = Some (Some ((beacon_pkt_sample 868100000)\<lparr>freq_hz := 868100827\<rparr>))
   \<and> round ((1 + 1 / 1048576) * 868100000 :: real) = 868100828"
  by (simp add: thread_jit_chain_def beacon_pkt_sample_def beacon_freq_corrected_def
      double_to_u32_def double_to_int_def c_trunc_def
      binary64_def binary64_exponent_def bit_length.simps round_even_def Let_def
      LGW_HAL_ERROR_def LGW_HAL_SUCCESS_def TX_EMITTING_def round_def)

text \<open>
  C8, amended: whenever the JIT dispatcher hands a dequeued beacon to the radio,
  the packet is the dequeued one with its frequency replaced by the binary64
  product of the XTAL correction and the stored frequency, with the fraction
  dropped by the cast to \<^verbatim>\<open>uint32_t\<close>; for a correction that is not negative
  this is the product rounded down, and it lies between the exact product rounded
  down and rounded up. The dispatcher does hand the beacon over, with that
  frequency, when peek and dequeue succeed, the concentrator is not emitting and
  the cast is defined.
\<close>

theorem thread_jit_beacon_freq_truncated:
  "(thread_jit_chain xc peek (deq_result, pkt, JIT_PKT_TYPE_BEACON) status send_ret m
      = Some (Some sent, m') \<longrightarrow>
      sent = pkt\<lparr>freq_hz := word_of_int (c_trunc (binary64 (xc * real (unat (freq_hz pkt)))))\<rparr>
      \<and> uint (freq_hz sent) = c_trunc (binary64 (xc * real (unat (freq_hz pkt))))
      \<and> (0 \<le> xc \<longrightarrow>
           uint (freq_hz sent) = \<lfloor>binary64 (xc * real (unat (freq_hz pkt)))\<rfloor>
           \<and> \<lfloor>xc * real (unat (freq_hz pkt))\<rfloor> \<le> uint (freq_hz sent)
           \<and> uint (freq_hz sent) \<le> \<lceil>xc * real (unat (freq_hz pkt))\<rceil>))
   \<and> (- 1 < pkt_index
      \<and> \<not> (status_result \<noteq> LGW_HAL_ERROR \<and> tx_status = TX_EMITTING)
      \<and> 0 \<le> c_trunc (binary64 (xc * real (unat (freq_hz pkt))))
      \<and> c_trunc (binary64 (xc * real (unat (freq_hz pkt)))) \<le> 4294967295 \<longrightarrow>
      map_option fst (thread_jit_chain xc (JIT_ERROR_OK, pkt_index)
          (JIT_ERROR_OK, pkt, JIT_PKT_TYPE_BEACON) (status_result, tx_status) send_ret m)
        = Some (Some (pkt\<lparr>freq_hz :=
            word_of_int (c_trunc (binary64 (xc * real (unat (freq_hz pkt)))))\<rparr>)))"
proof (intro conjI impI)
  let ?x = "xc * real (unat (freq_hz pkt))"
  assume run: "thread_jit_chain xc peek (deq_result, pkt, JIT_PKT_TYPE_BEACON) status send_ret m
      = Some (Some sent, m')"
  from thread_jit_chain_beacon_sent [OF run]
  have c: "double_to_u32 (binary64 ?x) = Some (freq_hz sent)"
    and s: "sent = pkt\<lparr>freq_hz := freq_hz sent\<rparr>"
    by (simp_all add: beacon_freq_corrected_def)
  have f: "freq_hz sent = word_of_int (c_trunc (binary64 ?x))"
    using double_to_u32_Some [OF c] by (rule conjunct1)
  have u: "uint (freq_hz sent) = c_trunc (binary64 ?x)"
    using double_to_u32_Some [OF c] by (rule conjunct2)
  from s f show "sent = pkt\<lparr>freq_hz := word_of_int (c_trunc (binary64 ?x))\<rparr>" by simp
  from u show "uint (freq_hz sent) = c_trunc (binary64 ?x)" .
  assume "0 \<le> xc"
  then have x: "0 \<le> ?x" by (intro mult_nonneg_nonneg of_nat_0_le_iff)
  then have b: "0 \<le> binary64 ?x" by (rule binary64_nonneg)
  then have t: "c_trunc (binary64 ?x) = \<lfloor>binary64 ?x\<rfloor>" by (simp add: c_trunc_def)
  with u show fl: "uint (freq_hz sent) = \<lfloor>binary64 ?x\<rfloor>" by simp
  have "uint (freq_hz sent) < 4294967296"
    using uint_bounded [of "freq_hz sent"] by simp
  with fl have "binary64 ?x < 4294967296" by (simp add: floor_less_iff)
  from floor_binary64_between [OF x this] fl
  show "\<lfloor>?x\<rfloor> \<le> uint (freq_hz sent)" "uint (freq_hz sent) \<le> \<lceil>?x\<rceil>" by simp_all
next
  let ?t = "c_trunc (binary64 (xc * real (unat (freq_hz pkt))))"
  assume a: "- 1 < pkt_index
      \<and> \<not> (status_result \<noteq> LGW_HAL_ERROR \<and> tx_status = TX_EMITTING)
      \<and> 0 \<le> ?t \<and> ?t \<le> 4294967295"
  then have "double_to_u32 (binary64 (xc * real (unat (freq_hz pkt)))) = Some (word_of_int ?t)"
    by (simp add: double_to_u32_defined)
  with a show "map_option fst (thread_jit_chain xc (JIT_ERROR_OK, pkt_index)
          (JIT_ERROR_OK, pkt, JIT_PKT_TYPE_BEACON) (status_result, tx_status) send_ret m)
        = Some (Some (pkt\<lparr>freq_hz := word_of_int ?t\<rparr>))"
    by (simp add: thread_jit_chain_def beacon_freq_corrected_def Let_def)
qed

theorem thread_jit_beacon_freq_truncated_witness:
  "thread_jit_chain (1 + 88049445 / 4503599627370496) (JIT_ERROR_OK, 0)
       (JIT_ERROR_OK, beacon_pkt_sample 869525000, JIT_PKT_TYPE_BEACON) (0, 2) 0 meas_dw_zero
     = Some (Some ((beacon_pkt_sample 869525000)\<lparr>freq_hz := 869525017\<rparr>),
             meas_dw_zero\<lparr>meas_nb_tx_ok := 1, meas_nb_beacon_sent := 1\<rparr>)
   \<and> c_trunc (binary64 ((1 + 88049445 / 4503599627370496) * real (unat (869525000 :: u32))))
       = 869525017
   \<and> \<lfloor>(1 + 88049445 / 4503599627370496) * real (unat (869525000 :: u32))\<rfloor> = 869525016"
proof -
  have run: "thread_jit_chain (1 + 88049445 / 4503599627370496) (JIT_ERROR_OK, 0)
       (JIT_ERROR_OK, beacon_pkt_sample 869525000, JIT_PKT_TYPE_BEACON) (0, 2) 0 meas_dw_zero
     = Some (Some ((beacon_pkt_sample 869525000)\<lparr>freq_hz := 869525017\<rparr>),
             meas_dw_zero\<lparr>meas_nb_tx_ok := 1, meas_nb_beacon_sent := 1\<rparr>)"
    by (simp add: thread_jit_chain_def beacon_pkt_sample_def beacon_freq_corrected_def
        double_to_u32_def double_to_int_def c_trunc_def meas_dw_zero_def
        binary64_def binary64_exponent_def bit_length.simps round_even_def Let_def
        LGW_HAL_ERROR_def LGW_HAL_SUCCESS_def TX_EMITTING_def)
  from thread_jit_beacon_freq_truncated
    [of "1 + 88049445 / 4503599627370496" "(JIT_ERROR_OK, 0)" JIT_ERROR_OK
        "beacon_pkt_sample 869525000" "(0, 2)" 0 meas_dw_zero
        "(beacon_pkt_sample 869525000)\<lparr>freq_hz := 869525017\<rparr>"
        "meas_dw_zero\<lparr>meas_nb_tx_ok := 1, meas_nb_beacon_sent := 1\<rparr>"] run
  have "uint (freq_hz ((beacon_pkt_sample 869525000)\<lparr>freq_hz := 869525017\<rparr>))
          = c_trunc (binary64 ((1 + 88049445 / 4503599627370496)
              * real (unat (freq_hz (beacon_pkt_sample 869525000)))))"
    by blast
  then have "c_trunc (binary64 ((1 + 88049445 / 4503599627370496)
              * real (unat (869525000 :: u32)))) = 869525017"
    by (simp add: beacon_pkt_sample_def)
  moreover have "\<lfloor>(1 + 88049445 / 4503599627370496) * real (unat (869525000 :: u32))\<rfloor>
      = (869525016 :: int)"
    by (simp add: floor_eq_iff)
  ultimately show ?thesis using run by simp
qed

subsection \<open>The system clock\<close>

lemma to_int32_id: "- 2147483648 \<le> d \<Longrightarrow> d < 2147483648 \<Longrightarrow> to_int32 d = d"
  unfolding to_int32_def by (rule sint_i32_of_int)

lemma c_abs_to_int32_small: "\<bar>d\<bar> < 10 \<Longrightarrow> c_abs (to_int32 d) < 10"
  using to_int32_id [of d] by (simp add: c_abs_def)

lemma modify_os_time_set:
  "modify_os_time en a y st ret = (a', Some t) \<Longrightarrow>
     t = y \<and> 1583402711 \<le> y \<and> 10 \<le> \<bar>y - st\<bar> \<and> ret = 0 \<and> en \<and> \<not> a \<and> a'"
  using c_abs_to_int32_small [of "y - st"]
  by (cases "\<bar>y - st\<bar> < 10") (auto simp add: modify_os_time_def Let_def split: if_splits)

lemma modify_os_time_sets:
  assumes "en" "\<not> a" "1583402711 \<le> y" "10 \<le> \<bar>y - st\<bar>" "\<bar>y - st\<bar> < 2147483648"
  shows "modify_os_time en a y st 0 = (True, Some y)"
proof -
  from assms(5) have "to_int32 (y - st) = y - st" by (intro to_int32_id) simp_all
  with assms show ?thesis by (simp add: modify_os_time_def c_abs_def Let_def)
qed

lemma os_time_sets_already: "os_time_sets en True calls = []"
  by (induction calls) (auto simp add: modify_os_time_def)

lemma os_time_sets_length: "length (os_time_sets en a calls) \<le> 1"
proof (induction calls arbitrary: a)
  case Nil
  show ?case by simp
next
  case (Cons c calls)
  obtain y st ret where c: "c = (y, st, ret)" by (cases c)
  obtain a' r where r: "modify_os_time en a y st ret = (a', r)"
    by (cases "modify_os_time en a y st ret")
  show ?case
  proof (cases r)
    case None
    with c r Cons.IH [of a'] show ?thesis by simp
  next
    case (Some t)
    with r have "a'" using modify_os_time_set by blast
    with c r Some show ?thesis by (simp add: os_time_sets_already)
  qed
qed

lemma os_time_sets_from_call:
  "t \<in> set (os_time_sets en a calls) \<Longrightarrow>
     \<exists>st. (t, st, 0) \<in> set calls \<and> 1583402711 \<le> t \<and> 10 \<le> \<bar>t - st\<bar>"
proof (induction calls arbitrary: a)
  case Nil
  then show ?case by simp
next
  case (Cons c calls)
  obtain y st ret where c: "c = (y, st, ret)" by (cases c)
  obtain a' r where r: "modify_os_time en a y st ret = (a', r)"
    by (cases "modify_os_time en a y st ret")
  show ?case
  proof (cases r)
    case None
    with c r Cons.prems have "t \<in> set (os_time_sets en a' calls)" by simp
    from Cons.IH [OF this] show ?thesis by auto
  next
    case (Some t')
    with r have s: "t' = y \<and> 1583402711 \<le> y \<and> 10 \<le> \<bar>y - st\<bar> \<and> ret = 0 \<and> a'"
      using modify_os_time_set by blast
    with c r Some Cons.prems have "t = y" by (simp add: os_time_sets_already)
    with s c show ?thesis by auto
  qed
qed

text \<open>
  C3, as stated, fails: the date test of \<open>modify_os_time\<close> compares with
  1583402711, which is 2020-03-05T10:05:11Z, while 2020-03-05T18:00:00Z is
  1583431200. With the GPS second 1583402711 and a system clock at second 0 the
  clock is set, although the GPS time is before 2020-03-05T18:00:00Z.
\<close>

theorem modify_os_time_sets_before_18h:
  "modify_os_time True False 1583402711 0 0 = (True, Some 1583402711)
   \<and> os_time_sets True False [(1583402711, 0, 0)] = [1583402711]
   \<and> (1583402711 :: int) < 1583431200"
  by (simp add: modify_os_time_def to_int32_def c_abs_def)

text \<open>
  C3, amended: over any sequence of calls of a process the system clock is set
  at most once; it is set only to the GPS-derived second of a call for which
  \<^verbatim>\<open>clock_settime\<close> succeeds, that second is 1583402711 (2020-03-05T10:05:11Z) or
  later, and it differs from the second of the system time by 10 or more. A
  call sets the clock only with GPS enabled and the flag clear, and sets the
  flag; with GPS enabled and the flag clear, a call whose GPS second is
  1583402711 or later and differs from the system second by 10 or more (and by
  less than \<open>2 ^ 31\<close>) sets the clock to it when \<^verbatim>\<open>clock_settime\<close> succeeds.
\<close>

theorem os_clock_set_once:
  "length (os_time_sets en a calls) \<le> 1
   \<and> (\<forall>t \<in> set (os_time_sets en a calls).
        \<exists>st. (t, st, 0) \<in> set calls \<and> 1583402711 \<le> t \<and> 10 \<le> \<bar>t - st\<bar>)
   \<and> (modify_os_time en a y st ret = (a', Some t') \<longrightarrow>
        t' = y \<and> 1583402711 \<le> y \<and> 10 \<le> \<bar>y - st\<bar> \<and> ret = 0 \<and> en \<and> \<not> a \<and> a')
   \<and> (en \<and> \<not> a \<and> 1583402711 \<le> y \<and> 10 \<le> \<bar>y - st\<bar> \<and> \<bar>y - st\<bar> < 2147483648 \<longrightarrow>
        modify_os_time en a y st 0 = (True, Some y))"
  using os_time_sets_length [of en a calls] os_time_sets_from_call [of _ en a calls]
    modify_os_time_set [of en a y st ret a' t'] modify_os_time_sets [of en a y st]
  by blast

theorem os_clock_set_once_witness:
  "os_time_sets True False
     [(1583402710, 0, 0), (1700000000, 0, 1), (1700000001, 1600000000, 0), (1700000002, 0, 0)]
     = [1700000001]
   \<and> modify_os_time True False 1700000001 1600000000 0 = (True, Some 1700000001)
   \<and> (\<exists>st. (1700000001, st, 0) \<in> set
        [(1583402710, 0, 0), (1700000000, 0, 1), (1700000001, 1600000000, 0), (1700000002 :: int, 0 :: int, 0 :: int)]
        \<and> (1583402711 :: int) \<le> 1700000001 \<and> 10 \<le> \<bar>1700000001 - st\<bar>)"
proof -
  let ?calls = "[(1583402710, 0, 0), (1700000000, 0, 1), (1700000001, 1600000000, 0),
                 (1700000002 :: int, 0 :: int, 0 :: int)]"
  have sets: "os_time_sets True False ?calls = [1700000001]"
    by (simp add: modify_os_time_def to_int32_def c_abs_def)
  note inst = os_clock_set_once [of True False ?calls 1700000001 1600000000 0 True 1700000001]
  from inst have "modify_os_time True False 1700000001 1600000000 0 = (True, Some 1700000001)"
    by simp
  moreover from inst
  have "\<forall>t \<in> set (os_time_sets True False ?calls).
          \<exists>st. (t, st, 0) \<in> set ?calls \<and> 1583402711 \<le> t \<and> 10 \<le> \<bar>t - st\<bar>"
    by blast
  then have "\<exists>st. (1700000001, st, 0) \<in> set ?calls \<and> (1583402711 :: int) \<le> 1700000001
          \<and> 10 \<le> \<bar>1700000001 - st\<bar>"
    unfolding sets by (rule bspec) simp
  ultimately show ?thesis using sets by simp
qed

end
